theory Spec2Isabelle
  imports Main "HOL-Library.Multiset"
begin

section \<open>Go library functions used by the code\<close>

text \<open>
  Go strings are byte sequences; \<open>string\<close> (a list of 8-bit characters) models them
  byte for byte.
\<close>

definition isASCII :: "char \<Rightarrow> bool" where
  "isASCII c = ((of_char c :: nat) < 128)"

definition isUpperASCII :: "char \<Rightarrow> bool" where
  "isUpperASCII c = (65 \<le> (of_char c :: nat) \<and> (of_char c :: nat) \<le> 90)"

definition lowerByte :: "char \<Rightarrow> char" where
  "lowerByte c = (if isUpperASCII c then char_of ((of_char c :: nat) + 32) else c)"

text \<open>
  \<open>strings.ToLower\<close>: on a string of ASCII bytes every byte in \<open>A..Z\<close> is moved to
  \<open>a..z\<close>; any other string goes through \<open>strings.Map(unicode.ToLower, s)\<close>, the
  Unicode case tables, which are taken as the parameter \<open>unicodeLower\<close>.
\<close>

definition ToLower :: "(string \<Rightarrow> string) \<Rightarrow> string \<Rightarrow> string" where
  "ToLower unicodeLower s =
     (if list_all isASCII s then map lowerByte s else unicodeLower s)"

text \<open>\<open>strings.Join(elems, sep)\<close>.\<close>

fun strings_Join :: "string list \<Rightarrow> string \<Rightarrow> string" where
  "strings_Join [] sep = []"
| "strings_Join [x] sep = x"
| "strings_Join (x # y # ys) sep = x @ sep @ strings_Join (y # ys) sep"

section \<open>Disks stage: UUID canonicalisation (filesystems.go)\<close>

text \<open>
  \<open>canonicalizeFilesystemUUID(format, uuid)\<close>: lower-case the UUID; for \<open>vfat\<close> drop
  the byte at index 4 when the lowered string has at least 5 bytes and that byte is a dash.
\<close>

definition canonicalizeFilesystemUUID ::
  "(string \<Rightarrow> string) \<Rightarrow> string \<Rightarrow> string \<Rightarrow> string" where
  "canonicalizeFilesystemUUID unicodeLower format uuid =
     (let uuid1 = ToLower unicodeLower uuid in
      if format = ''vfat'' then
        (if length uuid1 \<ge> 5 \<and> uuid1 ! 4 = CHR ''-''
         then take 4 uuid1 @ drop 5 uuid1
         else uuid1)
      else uuid1)"

section \<open>Disks stage: data model\<close>

text \<open>
  Modelled from the spec: the configuration types of \<open>internal/config/types\<close>, whose
  declarations are not among the sources, with the fields that the disks stage reads, typed
  as the code uses them (section 3 of the specification lists them for a filesystem). A Go
  pointer field is an \<open>option\<close>; a slice is a list. Of a disk and of a RAID array the
  stage's \<open>Run\<close> and \<open>createFilesystems\<close> read nothing but their number, so they carry
  their identifying key only.
\<close>

record Create =
  Force :: bool
  CreateOptions :: "string list"

record Mount =
  Device :: string
  Format :: string
  WipeFilesystem :: bool
  Label :: "string option"
  UUID :: "string option"
  Options :: "string list"
  Create :: "Create option"
  CleanExcept :: "string list"

record Filesystem =
  Name :: string
  Mount :: "Mount option"
  Path :: "string option"

record Disk =
  DiskDevice :: string

record Raid =
  RaidName :: string

record Storage =
  Disks :: "Disk list"
  Raid :: "Raid list"
  Filesystems :: "Filesystem list"

record Config =
  Storage :: Storage

text \<open>
  A Go \<open>error\<close> of the disks stage: the sentinel \<open>ErrBadFilesystem\<close>, or any other
  error value, given by its message (\<open>errors.New\<close>, \<open>fmt.Errorf\<close>, an error of the
  operating system). \<open>Error\<close> is the \<open>Error()\<close> method.
\<close>

datatype error = ErrBadFilesystem | Err string

fun Error :: "error \<Rightarrow> string" where
  "Error ErrBadFilesystem = ''filesystem is not of the correct type''"
| "Error (Err msg) = msg"

record filesystemInfo =
  format :: string
  uuid :: string
  label :: string

text \<open>
  What the stage does to the machine is recorded as a list of events, in program order:
  a line written through \<open>s.Logger.Info\<close> or \<open>s.Logger.Err\<close> (level, format string and
  arguments, unformatted), a command run through \<open>LogCmd\<close>, a wait for devices, a device
  alias created, the mount, walk and unmount of \<open>cleanFilesystemExcept\<close> on its scratch
  directory (device, directory, format and the two pattern lists), and the two sub-steps
  whose code is in other files of the package. Reading the type, UUID and label of a device
  changes nothing and leaves no event; the bookkeeping lines of \<open>LogOp\<close>, \<open>LogCmd\<close>
  and the logger's prefix stack are not recorded.
\<close>

datatype level = Info | Error_level

datatype event =
    Log level string "string list"
  | Exec string "string list"
  | WaitOnDevicesEv "string list" string
  | CreateDeviceAliasEv string
  | MountAndWalk string string string "string list" "string list"
  | Partitioning
  | RaidCreation

text \<open>
  The receiver \<open>s stage\<close> together with everything outside the two source files that its
  methods call: the outcome of each external operation is a function of the operation's
  arguments, so one worker of \<open>createFilesystems\<close> does not change what another finds
  (the workers share no data and each owns one mount). \<open>arrival\<close> is the order in
  which the worker goroutines deliver their results (see \<open>arrivalOrder\<close>).
\<close>

record stage =
  unicodeLower :: "string \<Rightarrow> string"
  Quote :: "string \<Rightarrow> string"
  FilesystemType :: "string \<Rightarrow> error + string"
  FilesystemUUID :: "string \<Rightarrow> error + string"
  FilesystemLabel :: "string \<Rightarrow> error + string"
  LogCmd :: "string \<Rightarrow> string list \<Rightarrow> error option"
  regexp_Compile :: "string \<Rightarrow> error option"
  TempDir :: "error + string"
  mountAndWalk :: "string \<Rightarrow> string \<Rightarrow> string \<Rightarrow> string list \<Rightarrow> string list \<Rightarrow> error option"
  WaitOnDevices :: "string list \<Rightarrow> string \<Rightarrow> error option"
  CreateDeviceAlias :: "string \<Rightarrow> error + string"
  DeviceAlias :: "string \<Rightarrow> string"
  BtrfsMkfsCmd :: string
  Ext4MkfsCmd :: string
  XfsMkfsCmd :: string
  SwapMkfsCmd :: string
  VfatMkfsCmd :: string
  createPartitions :: "Config \<Rightarrow> event list \<times> error option"
  createRaids :: "Config \<Rightarrow> event list \<times> error option"
  arrival :: "nat list"

section \<open>Disks stage: creating filesystems (filesystems.go)\<close>

text \<open>\<open>readFilesystemInfo\<close>: type, then UUID, then label; the first failure is returned.\<close>

definition readFilesystemInfo :: "stage \<Rightarrow> Mount \<Rightarrow> event list \<times> (error + filesystemInfo)" where
  "readFilesystemInfo s fs =
     (case FilesystemType s (Device fs) of
        Inl err \<Rightarrow> ([], Inl err)
      | Inr f \<Rightarrow>
          (case FilesystemUUID s (Device fs) of
             Inl err \<Rightarrow> ([], Inl err)
           | Inr u \<Rightarrow>
               (case FilesystemLabel s (Device fs) of
                  Inl err \<Rightarrow> ([], Inl err)
                | Inr l \<Rightarrow>
                    ([Log Info ''found %s filesystem at %q with uuid %q and label %q''
                        [f, Device fs, u, l]],
                     Inr \<lparr>format = f, uuid = u, label = l\<rparr>))))"

text \<open>\<open>strings.TrimSuffix(s, "/")\<close> and \<open>strings.Split(s, "/")\<close>.\<close>

definition TrimSuffix_slash :: "string \<Rightarrow> string" where
  "TrimSuffix_slash p = (if p \<noteq> [] \<and> last p = CHR ''/'' then butlast p else p)"

fun Split :: "string \<Rightarrow> char \<Rightarrow> string list" where
  "Split [] c = [[]]"
| "Split (x # xs) c =
     (if x = c then [] # Split xs c
      else (case Split xs c of [] \<Rightarrow> [[x]] | y # ys \<Rightarrow> (x # y) # ys))"

text \<open>
  \<open>path.Clean\<close> and \<open>path.Join\<close> (on Linux also \<open>filepath.Join\<close>), by path elements:
  empty elements and \<open>.\<close> are dropped, \<open>..\<close> removes the element before it, is dropped at
  the root of a rooted path and is kept at the start of a relative one; the empty result is
  \<open>.\<close>. \<open>Join\<close> ignores empty arguments and returns the empty string when all are empty.
\<close>

definition cleanStep :: "bool \<Rightarrow> string list \<Rightarrow> string \<Rightarrow> string list" where
  "cleanStep rooted out e =
     (if e = [] \<or> e = ''.'' then out
      else if e = ''..'' then
        (if out \<noteq> [] \<and> last out \<noteq> ''..'' then butlast out
         else if rooted then out
         else out @ [e])
      else out @ [e])"

definition Clean :: "string \<Rightarrow> string" where
  "Clean p =
     (if p = [] then ''.''
      else
        (let rooted = (hd p = CHR ''/'');
             out = foldl (cleanStep rooted) [] (Split p (CHR ''/''));
             r = (if rooted then ''/'' else []) @ strings_Join out ''/''
         in if r = [] then ''.'' else r))"

definition path_Join :: "string list \<Rightarrow> string" where
  "path_Join elem =
     (let es = filter (\<lambda>e. e \<noteq> []) elem
      in if es = [] then [] else Clean (strings_Join es ''/''))"

text \<open>
  \<open>cleanFilesystemExcept\<close>. A compiled regular expression is kept as its pattern. The
  inner loop compiles one pattern for each parent directory, \<open>i\<close> running from
  \<open>len(parts) - 1\<close> down to 2.
\<close>

fun compileParents :: "stage \<Rightarrow> string list \<Rightarrow> nat list \<Rightarrow> error + string list" where
  "compileParents s parts [] = Inr []"
| "compileParents s parts (i # is) =
     (let r = ''/'' @ path_Join (take i parts) in
      case regexp_Compile s r of
        Some err \<Rightarrow>
          Inl (Err (''split regex not valid, you must not use '' @ [CHR 0x27] @ ''/'' @ [CHR 0x27]
                    @ '' as part of a regular expression:'' @ Error err))
      | None \<Rightarrow>
          (case compileParents s parts is of
             Inl e \<Rightarrow> Inl e
           | Inr rs \<Rightarrow> Inr (r # rs)))"

text \<open>
  The loop over \<open>fs.CleanExcept\<close>: \<open>Inl r\<close> when the function returns \<open>r\<close> from inside
  the loop (\<open>None\<close> for \<open>return nil\<close>), \<open>Inr\<close> the two pattern lists otherwise.
\<close>

fun compileCleanExcept ::
  "stage \<Rightarrow> string list \<Rightarrow> string list \<Rightarrow> string list \<Rightarrow> error option + (string list \<times> string list)" where
  "compileCleanExcept s [] keep parents = Inr (keep, parents)"
| "compileCleanExcept s (regex # rest) keep parents =
     (let pathRegex = TrimSuffix_slash regex in
      if length pathRegex = 0 then Inl None
      else
        (case regexp_Compile s pathRegex of
           Some err \<Rightarrow> Inl (Some err)
         | None \<Rightarrow>
             (let parts = Split pathRegex (CHR ''/'') in
              case compileParents s parts (rev [2..<length parts]) of
                Inl e \<Rightarrow> Inl (Some e)
              | Inr rs \<Rightarrow>
                  compileCleanExcept s rest (keep @ [pathRegex, pathRegex]) (parents @ rs))))"

definition cleanFilesystemExcept :: "stage \<Rightarrow> Mount \<Rightarrow> event list \<times> error option" where
  "cleanFilesystemExcept s fs =
     (let ev = [Log Info ''filesystem at %q needs to be cleaned, preserving only %q''
                  (Device fs # CleanExcept fs)] in
      case compileCleanExcept s (CleanExcept fs) [] [] of
        Inl r \<Rightarrow> (ev, r)
      | Inr (keep, parents) \<Rightarrow>
          (case TempDir s of
             Inl err \<Rightarrow> (ev, Some (Err (''failed to create temp directory: '' @ Error err)))
           | Inr mnt0 \<Rightarrow>
               (let mnt = TrimSuffix_slash mnt0 in
                (ev @ [MountAndWalk (Device fs) mnt (Format fs) keep parents],
                 mountAndWalk s (Device fs) mnt (Format fs) keep parents))))"

text \<open>
  The second half of \<open>createFilesystem\<close>: the command and its arguments by format
  (\<open>None\<close> is the \<open>default\<close> branch of the switch), then the run.
\<close>

definition uuidArgs :: "stage \<Rightarrow> Mount \<Rightarrow> string \<Rightarrow> string list" where
  "uuidArgs s fs flag =
     (case UUID fs of
        None \<Rightarrow> []
      | Some u \<Rightarrow> [flag, canonicalizeFilesystemUUID (unicodeLower s) (Format fs) u])"

definition labelArgs :: "Mount \<Rightarrow> string \<Rightarrow> string list" where
  "labelArgs fs flag = (case Label fs of None \<Rightarrow> [] | Some l \<Rightarrow> [flag, l])"

definition mkfsCommand :: "stage \<Rightarrow> Mount \<Rightarrow> (string \<times> string list) option" where
  "mkfsCommand s fs =
     (let args = (case Create fs of None \<Rightarrow> Options fs | Some c \<Rightarrow> CreateOptions c) in
      if Format fs = ''btrfs'' then
        Some (BtrfsMkfsCmd s, args @ [''--force''] @ uuidArgs s fs ''-U'' @ labelArgs fs ''-L'')
      else if Format fs = ''ext4'' then
        Some (Ext4MkfsCmd s, args @ [''-F''] @ uuidArgs s fs ''-U'' @ labelArgs fs ''-L'')
      else if Format fs = ''xfs'' then
        Some (XfsMkfsCmd s, args @ [''-f'']
              @ (case UUID fs of
                   None \<Rightarrow> []
                 | Some u \<Rightarrow>
                     [''-m'', ''uuid='' @ canonicalizeFilesystemUUID (unicodeLower s) (Format fs) u])
              @ labelArgs fs ''-L'')
      else if Format fs = ''swap'' then
        Some (SwapMkfsCmd s, args @ [''-f''] @ uuidArgs s fs ''-U'' @ labelArgs fs ''-L'')
      else if Format fs = ''vfat'' then
        Some (VfatMkfsCmd s, args @ uuidArgs s fs ''-i'' @ labelArgs fs ''-n'')
      else None)"

definition runMkfs :: "stage \<Rightarrow> Mount \<Rightarrow> event list \<times> error option" where
  "runMkfs s fs =
     (case mkfsCommand s fs of
        None \<Rightarrow> ([], Some (Err (''unsupported filesystem format: '' @ Quote s (Format fs))))
      | Some (mkfs, args0) \<Rightarrow>
          (let devAlias = DeviceAlias s (Device fs);
               args = args0 @ [devAlias] in
           ([Exec mkfs args],
            (case LogCmd s mkfs args of
               Some err \<Rightarrow> Some (Err (''mkfs failed: '' @ Error err))
             | None \<Rightarrow> None))))"

text \<open>
  \<open>createFilesystem\<close>. With a \<open>create\<close> block (2.0.0 semantics) an existing filesystem
  is an error unless \<open>force\<close> is set; without one and without \<open>wipeFilesystem\<close> the
  existing filesystem is kept when it matches, is an error when it does not, and mkfs runs
  when there is none.
\<close>

definition createFilesystem :: "stage \<Rightarrow> Mount \<Rightarrow> event list \<times> error option" where
  "createFilesystem s fs =
     (case readFilesystemInfo s fs of
        (ev0, Inl err) \<Rightarrow> (ev0, Some err)
      | (ev0, Inr info) \<Rightarrow>
          (case Create fs of
             Some c \<Rightarrow>
               (if \<not> Force c \<and> format info \<noteq> [] then
                  (ev0 @ [Log Error_level
                            ''filesystem detected at %q (found %s) and force was not requested''
                            [Device fs, format info]],
                   Some ErrBadFilesystem)
                else (ev0 @ fst (runMkfs s fs), snd (runMkfs s fs)))
           | None \<Rightarrow>
               (if \<not> WipeFilesystem fs then
                  (if (format info = Format fs \<or> label info = ''OEM'') \<and>
                      (Label fs = None \<or> label info = the (Label fs)) \<and>
                      (UUID fs = None \<or>
                       canonicalizeFilesystemUUID (unicodeLower s) (format info) (uuid info) =
                       canonicalizeFilesystemUUID (unicodeLower s) (Format fs) (the (UUID fs)))
                   then
                     (let ev1 = ev0 @ [Log Info
                            ''filesystem at %q is already correctly formatted. Skipping mkfs...''
                            [Device fs]] in
                      if length (CleanExcept fs) > 0 then
                        (ev1 @ fst (cleanFilesystemExcept s fs), snd (cleanFilesystemExcept s fs))
                      else (ev1, None))
                   else if format info \<noteq> [] then
                     (ev0 @ [Log Error_level
                        ''filesystem at %q is not of the correct type, label, or UUID (found %s, %q, %s) and a filesystem wipe was not requested''
                        [Device fs, format info, label info, uuid info]],
                      Some ErrBadFilesystem)
                   else (ev0 @ fst (runMkfs s fs), snd (runMkfs s fs)))
                else (ev0 @ fst (runMkfs s fs), snd (runMkfs s fs)))))"

section \<open>Disks stage: waiting for devices, the worker pool and \<open>Run\<close>\<close>

definition waitOnDevices :: "stage \<Rightarrow> string list \<Rightarrow> string \<Rightarrow> event list \<times> error option" where
  "waitOnDevices s devs ctxt =
     ([WaitOnDevicesEv devs ctxt],
      (case WaitOnDevices s devs ctxt of
         Some err \<Rightarrow> Some (Err (''failed to wait on '' @ ctxt @ '' devs: '' @ Error err))
       | None \<Rightarrow> None))"

fun createDeviceAliases :: "stage \<Rightarrow> string list \<Rightarrow> event list \<times> error option" where
  "createDeviceAliases s [] = ([], None)"
| "createDeviceAliases s (dev # devs) =
     (case CreateDeviceAlias s dev of
        Inl err \<Rightarrow>
          ([CreateDeviceAliasEv dev],
           Some (Err (''failed to create device alias for '' @ Quote s dev @ '': '' @ Error err)))
      | Inr target \<Rightarrow>
          (let ev = [CreateDeviceAliasEv dev,
                     Log Info ''created device alias for %q: %q -> %q''
                       [dev, DeviceAlias s dev, target]];
               r = createDeviceAliases s devs
           in (ev @ fst r, snd r)))"

definition waitOnDevicesAndCreateAliases ::
  "stage \<Rightarrow> string list \<Rightarrow> string \<Rightarrow> event list \<times> error option" where
  "waitOnDevicesAndCreateAliases s devs ctxt =
     (case waitOnDevices s devs ctxt of
        (ev, Some err) \<Rightarrow> (ev, Some err)
      | (ev, None) \<Rightarrow>
          (case createDeviceAliases s devs of
             (ev', Some err) \<Rightarrow> (ev @ ev', Some err)
           | (ev', None) \<Rightarrow> (ev @ ev', None)))"

text \<open>
  The worker pool of \<open>createFilesystems\<close>: \<open>GOMAXPROCS\<close> goroutines (at least one) take
  the mounts from a channel and send each result of \<open>createFilesystem\<close> to the collector,
  which reads exactly one result per mount. The order in which the results arrive is not
  fixed by the program. It is given by a list of numbers: the collector's next result is the
  one at position \<open>k mod n\<close> among the \<open>n\<close> still outstanding, in the order of the mounts;
  when the list runs out the rest arrive in the order of the mounts. Every list gives a
  rearrangement of the results, and every rearrangement comes from some list. The events of
  one worker are kept together, in arrival order.
\<close>

fun arrivalOrder :: "nat list \<Rightarrow> 'a list \<Rightarrow> 'a list" where
  "arrivalOrder [] xs = xs"
| "arrivalOrder (k # ks) xs =
     (if xs = [] then []
      else (let i = k mod length xs
            in xs ! i # arrivalOrder ks (take i xs @ drop (Suc i) xs)))"

text \<open>The collector's loop: the messages of the results that are errors, in arrival order.\<close>

fun collectErrs :: "error option list \<Rightarrow> string list" where
  "collectErrs [] = []"
| "collectErrs (None # rs) = collectErrs rs"
| "collectErrs (Some err # rs) = Error err # collectErrs rs"

text \<open>The first loop of \<open>createFilesystems\<close>: the mounts of the entries that have one.\<close>

fun mountsOf :: "Filesystem list \<Rightarrow> Mount list" where
  "mountsOf [] = []"
| "mountsOf (fs # rest) =
     (case Mount fs of None \<Rightarrow> mountsOf rest | Some m \<Rightarrow> m # mountsOf rest)"

definition createFilesystems :: "stage \<Rightarrow> Config \<Rightarrow> event list \<times> error option" where
  "createFilesystems s config =
     (let fss = mountsOf (Filesystems (Storage config)) in
      if length fss = 0 then ([], None)
      else
        (let devs = map Device fss in
         case waitOnDevicesAndCreateAliases s devs ''filesystems'' of
           (ev, Some err) \<Rightarrow> (ev, Some err)
         | (ev, None) \<Rightarrow>
             (let results = arrivalOrder (arrival s) (map (createFilesystem s) fss);
                  errs = collectErrs (map snd results)
              in (ev @ concat (map fst results),
                  if length errs > 0 then Some (Err (strings_Join errs [CHR 0x0A])) else None))))"

text \<open>
  \<open>Run\<close>. \<open>createPartitions\<close> and \<open>createRaids\<close> are methods of the same package whose
  files are not part of the sources at hand; they are fields of \<open>stage\<close>.
\<close>

definition Run :: "stage \<Rightarrow> Config \<Rightarrow> event list \<times> error option" where
  "Run s config =
     (if length (Disks (Storage config)) = 0 \<and>
         length (Raid (Storage config)) = 0 \<and>
         length (Filesystems (Storage config)) = 1
      then ([], None)
      else
        (case createPartitions s config of
           (ev1, Some err) \<Rightarrow> (ev1, Some (Err (''create partitions failed: '' @ Error err)))
         | (ev1, None) \<Rightarrow>
             (case createRaids s config of
                (ev2, Some err) \<Rightarrow>
                  (ev1 @ ev2, Some (Err (''failed to create raids: '' @ Error err)))
              | (ev2, None) \<Rightarrow>
                  (case createFilesystems s config of
                     (ev3, Some err) \<Rightarrow>
                       (ev1 @ ev2 @ ev3,
                        Some (Err (''failed to create filesystems: '' @ Error err)))
                   | (ev3, None) \<Rightarrow> (ev1 @ ev2 @ ev3, None)))))"

section \<open>Disks stage: observations and sample inputs\<close>

text \<open>
  Two observations on an outcome of \<open>createFilesystem\<close>: the stage wrote its
  \<open>Skipping mkfs\<close> line for the mount; the stage ran a command.
\<close>

definition isExec :: "event \<Rightarrow> bool" where
  "isExec e = (case e of Exec c a \<Rightarrow> True | _ \<Rightarrow> False)"

definition invokesMkfs :: "event list \<times> error option \<Rightarrow> bool" where
  "invokesMkfs r = list_ex isExec (fst r)"

definition skipsMkfs :: "Mount \<Rightarrow> event list \<times> error option \<Rightarrow> bool" where
  "skipsMkfs fs r =
     (Log Info ''filesystem at %q is already correctly formatted. Skipping mkfs...'' [Device fs]
        \<in> set (fst r))"

text \<open>
  The condition of the specification for keeping an existing filesystem: the probed format
  is the desired one or the probed label is \<open>OEM\<close>; the desired label is absent or is the
  probed label; the desired UUID is absent or canonicalises to the same string as the probed
  UUID.
\<close>

definition alreadyFormatted :: "stage \<Rightarrow> Mount \<Rightarrow> filesystemInfo \<Rightarrow> bool" where
  "alreadyFormatted s fs info =
     ((format info = Format fs \<or> label info = ''OEM'') \<and>
      (case Label fs of None \<Rightarrow> True | Some l \<Rightarrow> label info = l) \<and>
      (case UUID fs of
         None \<Rightarrow> True
       | Some u \<Rightarrow>
           canonicalizeFilesystemUUID (unicodeLower s) (format info) (uuid info) =
           canonicalizeFilesystemUUID (unicodeLower s) (Format fs) u))"

text \<open>
  A sample machine: \<open>/dev/sdb1\<close> holds an ext4 filesystem with label \<open>DATA\<close> and UUID
  \<open>u\<close>, \<open>/dev/sda6\<close> holds a btrfs filesystem with label \<open>OEM\<close>, every other device
  is blank; a command fails when its last argument is the alias of \<open>/dev/sdc2\<close> or of
  \<open>/dev/sde4\<close> and succeeds otherwise; waiting for devices and creating aliases succeed.
\<close>

definition sampleStage :: stage where
  "sampleStage =
     \<lparr>unicodeLower = (\<lambda>x. x),
      Quote = (\<lambda>x. [CHR 0x22] @ x @ [CHR 0x22]),
      FilesystemType =
        (\<lambda>d. if d = ''/dev/sdb1'' then Inr ''ext4''
             else if d = ''/dev/sda6'' then Inr ''btrfs'' else Inr []),
      FilesystemUUID = (\<lambda>d. if d = ''/dev/sdb1'' then Inr ''u'' else Inr []),
      FilesystemLabel =
        (\<lambda>d. if d = ''/dev/sdb1'' then Inr ''DATA''
             else if d = ''/dev/sda6'' then Inr ''OEM'' else Inr []),
      LogCmd =
        (\<lambda>c a. if a \<noteq> [] \<and> (last a = ''/run/ignition/dev_aliases/dev/sdc2'' \<or>
                                last a = ''/run/ignition/dev_aliases/dev/sde4'')
               then Some (Err (''exit status 1: '' @ last a)) else None),
      regexp_Compile = (\<lambda>r. None),
      TempDir = Inr ''/tmp/clean-filesystem-except1'',
      mountAndWalk = (\<lambda>d m f k p. None),
      WaitOnDevices = (\<lambda>ds c. None),
      CreateDeviceAlias = (\<lambda>d. Inr d),
      DeviceAlias = (\<lambda>d. ''/run/ignition/dev_aliases'' @ d),
      BtrfsMkfsCmd = ''mkfs.btrfs'',
      Ext4MkfsCmd = ''mkfs.ext4'',
      XfsMkfsCmd = ''mkfs.xfs'',
      SwapMkfsCmd = ''mkswap'',
      VfatMkfsCmd = ''mkfs.fat'',
      createPartitions = (\<lambda>c. ([Partitioning], None)),
      createRaids = (\<lambda>c. ([RaidCreation], None)),
      arrival = []\<rparr>"

definition ext4Mount :: "string \<Rightarrow> Mount" where
  "ext4Mount dev =
     \<lparr>Device = dev, Format = ''ext4'', WipeFilesystem = False, Label = None, UUID = None,
      Options = [], Create = None, CleanExcept = []\<rparr>"

definition dataMount :: Mount where
  "dataMount = (ext4Mount ''/dev/sdb1'')\<lparr>Label := Some ''DATA'', UUID := Some ''u''\<rparr>"

text \<open>
  Sample configurations: the base configuration with its implicit root filesystem only;
  three blank devices to be formatted as ext4; the one device that is already formatted;
  the two devices on which mkfs fails. \<open>waitFails\<close> is the sample machine on which the
  wait for devices times out, \<open>aliasFails\<close> the one on which no alias can be created.
\<close>

definition rootOnly :: Config where
  "rootOnly =
     \<lparr>Storage = \<lparr>Disks = [], Raid = [],
                 Filesystems = [\<lparr>Name = ''root'', Mount = None, Path = Some ''/''\<rparr>]\<rparr>\<rparr>"






section \<open>Legacy configurations (\<open>config/v2_4/types\<close>)\<close>

text \<open>
  Modelled from the spec: the legacy types, whose declarations are not among the sources,
  as far as the checks and the translation of systemd units, filesystems, files,
  directories and links read them, typed as the code uses them. Field \<open>F\<close> of struct
  \<open>S\<close> is
  \<open>old_S_F\<close>. The fields of the embedded structs \<open>FileEmbedded1\<close>,
  \<open>DirectoryEmbedded1\<close> and \<open>LinkEmbedded1\<close> are fields of the record that embeds
  them, as Go promotes them. The sections \<open>ignition\<close> and \<open>passwd\<close>, and the disks
  and RAID arrays of \<open>storage\<close>, are translated field by field and are left out.
\<close>

record old_Create =
  old_Create_Force :: bool
  old_Create_Options :: "string list"

record old_Mount =
  old_Mount_Device :: string
  old_Mount_Format :: string
  old_Mount_WipeFilesystem :: bool
  old_Mount_Label :: "string option"
  old_Mount_UUID :: "string option"
  old_Mount_Options :: "string list"
  old_Mount_Create :: "old_Create option"

record old_Filesystem =
  old_Filesystem_Name :: string
  old_Filesystem_Mount :: "old_Mount option"
  old_Filesystem_Path :: "string option"

record old_NodeUser =
  old_NodeUser_ID :: "int option"
  old_NodeUser_Name :: string

record old_NodeGroup =
  old_NodeGroup_ID :: "int option"
  old_NodeGroup_Name :: string

record old_Node =
  old_Node_Filesystem :: string
  old_Node_Path :: string
  old_Node_User :: "old_NodeUser option"
  old_Node_Group :: "old_NodeGroup option"
  old_Node_Overwrite :: "bool option"

record old_HTTPHeader =
  old_HTTPHeader_Name :: string
  old_HTTPHeader_Value :: string

record old_FileContents =
  old_FileContents_Compression :: string
  old_FileContents_Source :: string
  old_FileContents_Verification_Hash :: "string option"
  old_FileContents_HTTPHeaders :: "old_HTTPHeader list"

record old_File =
  old_File_Node :: old_Node
  old_File_Append :: bool
  old_File_Contents :: old_FileContents
  old_File_Mode :: "int option"

record old_Directory =
  old_Directory_Node :: old_Node
  old_Directory_Mode :: "int option"

record old_Link =
  old_Link_Node :: old_Node
  old_Link_Hard :: bool
  old_Link_Target :: string

record old_SystemdDropin =
  old_SystemdDropin_Name :: string
  old_SystemdDropin_Contents :: string

record old_Unit =
  old_Unit_Name :: string
  old_Unit_Enable :: bool
  old_Unit_Enabled :: "bool option"
  old_Unit_Mask :: bool
  old_Unit_Contents :: string
  old_Unit_Dropins :: "old_SystemdDropin list"

record old_Networkdunit =
  old_Networkdunit_Name :: string
  old_Networkdunit_Contents :: string

record old_Storage =
  old_Storage_Filesystems :: "old_Filesystem list"
  old_Storage_Files :: "old_File list"
  old_Storage_Directories :: "old_Directory list"
  old_Storage_Links :: "old_Link list"

record old_Config =
  old_Config_Networkd_Units :: "old_Networkdunit list"
  old_Config_Systemd_Units :: "old_Unit list"
  old_Config_Storage :: old_Storage

section \<open>Translated configurations (\<open>config/v3_1/types\<close>)\<close>

text \<open>
  Modelled from the spec: the types of the translated configuration, whose declarations are
  not among the sources, with the fields that the translation writes (section 3 of the
  specification). Field \<open>F\<close> of struct \<open>S\<close> is \<open>v3_S_F\<close>; an optional field is an
  \<open>option\<close>.
\<close>

record v3_Dropin =
  v3_Dropin_Name :: string
  v3_Dropin_Contents :: "string option"

record v3_Unit =
  v3_Unit_Name :: string
  v3_Unit_Enabled :: "bool option"
  v3_Unit_Mask :: "bool option"
  v3_Unit_Contents :: "string option"
  v3_Unit_Dropins :: "v3_Dropin list"

record v3_Filesystem =
  v3_Filesystem_Device :: string
  v3_Filesystem_Format :: "string option"
  v3_Filesystem_WipeFilesystem :: "bool option"
  v3_Filesystem_Label :: "string option"
  v3_Filesystem_UUID :: "string option"
  v3_Filesystem_Options :: "string list"
  v3_Filesystem_Path :: "string option"

record v3_NodeUser =
  v3_NodeUser_ID :: "int option"
  v3_NodeUser_Name :: "string option"

record v3_NodeGroup =
  v3_NodeGroup_ID :: "int option"
  v3_NodeGroup_Name :: "string option"

record v3_Node =
  v3_Node_Path :: string
  v3_Node_User :: v3_NodeUser
  v3_Node_Group :: v3_NodeGroup
  v3_Node_Overwrite :: "bool option"

record v3_HTTPHeader =
  v3_HTTPHeader_Name :: string
  v3_HTTPHeader_Value :: "string option"

record v3_Resource =
  v3_Resource_Compression :: "string option"
  v3_Resource_Source :: "string option"
  v3_Resource_HTTPHeaders :: "v3_HTTPHeader list"
  v3_Resource_Verification_Hash :: "string option"

record v3_File =
  v3_File_Node :: v3_Node
  v3_File_Append :: "v3_Resource list"
  v3_File_Contents :: v3_Resource
  v3_File_Mode :: "int option"

record v3_Directory =
  v3_Directory_Node :: v3_Node
  v3_Directory_Mode :: "int option"

record v3_Link =
  v3_Link_Node :: v3_Node
  v3_Link_Hard :: "bool option"
  v3_Link_Target :: string

record v3_Storage =
  v3_Storage_Filesystems :: "v3_Filesystem list"
  v3_Storage_Files :: "v3_File list"
  v3_Storage_Directories :: "v3_Directory list"
  v3_Storage_Links :: "v3_Link list"

record v3_Config =
  v3_Config_Ignition_Version :: string
  v3_Config_Systemd_Units :: "v3_Unit list"
  v3_Config_Storage :: v3_Storage

section \<open>What the translator uses from other packages\<close>

text \<open>
  Modelled from the spec: the validation report (section 9 of the specification), whose
  package is not among the sources. It is a list of entries with a kind; it is fatal when an
  entry is an error and deprecated when an entry is a deprecation.
\<close>

datatype entryKind = EntryError | EntryWarning | EntryInfo | EntryDeprecated

type_synonym report = "(entryKind \<times> string) list"

definition IsFatal :: "report \<Rightarrow> bool" where
  "IsFatal r = list_ex (\<lambda>e. fst e = EntryError) r"

definition IsDeprecated :: "report \<Rightarrow> bool" where
  "IsDeprecated r = list_ex (\<lambda>e. fst e = EntryDeprecated) r"

text \<open>
  Modelled from the spec: \<open>util.BoolP\<close>, \<open>util.BoolPStrict\<close>, \<open>util.StrP\<close> and
  \<open>util.StrPStrict\<close> of the vendored converter's \<open>util\<close> package, whose file is not
  among the sources. An optional field distinguishes absent from present (section 9 of the
  specification); the plain helpers give absent for the zero value, the strict ones give a
  present value always.
\<close>

definition BoolP :: "bool \<Rightarrow> bool option" where
  "BoolP b = (if b then Some b else None)"

definition BoolPStrict :: "bool \<Rightarrow> bool option" where
  "BoolPStrict b = Some b"

definition StrP :: "string \<Rightarrow> string option" where
  "StrP x = (if x = [] then None else Some x)"

definition StrPStrict :: "string \<Rightarrow> string option" where
  "StrPStrict x = Some x"

text \<open>
  The errors of \<open>Check2_4\<close> and \<open>Translate\<close>. \<open>InvalidInputConfig\<close> and
  \<open>InvalidTranslatedConfig\<close> carry the report whose text the message holds;
  \<open>FSGenerationError\<close> wraps the error of \<open>util.FSGeneration\<close>; \<open>CreateNotForced\<close>
  is the error for a \<open>mount.create\<close> object without \<open>force\<close>; \<open>NilPointerPanic\<close>
  is the run-time panic of reading through a nil pointer.
\<close>

datatype translate_error =
    InvalidInputConfig report
  | UsesNetworkdError
  | FSGenerationError string
  | CreateNotForced
  | DuplicateInodeError string string
  | UsesOwnLinkError string string
  | DuplicateUnitError string
  | DuplicateDropinError string string
  | InvalidTranslatedConfig report
  | NilPointerPanic

text \<open>
  The functions of other packages that \<open>Check2_4\<close> and \<open>Translate\<close> call and whose code
  is not among the sources: the two validators, \<open>util.FSGeneration\<close> (it may change the
  map it is given, so it returns the new map with its result) and
  \<open>util.CheckPathUsesLink\<close>.
\<close>

record deps =
  ValidateWithoutSource :: "old_Config \<Rightarrow> report"
  FSGeneration :: "string \<Rightarrow> (string \<rightharpoonup> string) \<Rightarrow> string + (string \<times> (string \<rightharpoonup> string))"
  CheckPathUsesLink :: "string list \<Rightarrow> string \<Rightarrow> string"
  ValidateWithContext :: "v3_Config \<Rightarrow> report"

text \<open>
  Modelled from the spec: \<open>util.CheckPathUsesLink(links, path)\<close>, not among the sources.
  The specification: "if any prefix of its path equals one of those link paths, fail with a
  specific error carrying both the entry name and offending link path", and a link under a
  link is "an error only when the outer link is a proper prefix (not equal)". The first
  link that is a proper prefix of the path is returned, the empty string when there is
  none.
\<close>

fun specCheckPathUsesLink :: "string list \<Rightarrow> string \<Rightarrow> string" where
  "specCheckPathUsesLink [] p = []"
| "specCheckPathUsesLink (l # ls) p =
     (if take (length l) p = l \<and> p \<noteq> l then l else specCheckPathUsesLink ls p)"

text \<open>
  The condition of the specification on an entry and a link: the link's path is a prefix of
  the entry's path and is not the whole of it.
\<close>

definition properPrefix :: "string \<Rightarrow> string \<Rightarrow> bool" where
  "properPrefix l p = (take (length l) p = l \<and> p \<noteq> l)"

text \<open>Reading a Go map: the zero value for a missing key.\<close>

definition lookup :: "(string \<rightharpoonup> string) \<Rightarrow> string \<Rightarrow> string" where
  "lookup m k = (case m k of None \<Rightarrow> [] | Some v \<Rightarrow> v)"

section \<open>\<open>Check2_4\<close> (v24tov31.go)\<close>

text \<open>
  The loop over the filesystems: every name goes through \<open>FSGeneration\<close>; a \<open>create\<close>
  object must have \<open>force\<close>. \<open>fs.Mount\<close> is read without a nil check.
\<close>

fun checkFilesystems ::
  "deps \<Rightarrow> old_Filesystem list \<Rightarrow> (string \<rightharpoonup> string) \<Rightarrow> translate_error + (string \<rightharpoonup> string)" where
  "checkFilesystems d [] fsMap = Inr fsMap"
| "checkFilesystems d (fs # rest) fsMap =
     (case FSGeneration d (old_Filesystem_Name fs) fsMap of
        Inl err \<Rightarrow> Inl (FSGenerationError err)
      | Inr (name, fsMap') \<Rightarrow>
          (case old_Filesystem_Mount fs of
             None \<Rightarrow> Inl NilPointerPanic
           | Some mnt \<Rightarrow>
               (if old_Mount_Create mnt \<noteq> None \<and> \<not> old_Create_Force (the (old_Mount_Create mnt))
                then Inl CreateNotForced
                else checkFilesystems d rest fsMap')))"

definition nodePath :: "(string \<rightharpoonup> string) \<Rightarrow> old_Node \<Rightarrow> string" where
  "nodePath fsMap n = path_Join [''/'', lookup fsMap (old_Node_Filesystem n), old_Node_Path n]"

text \<open>
  The three loops over files, directories and links. \<open>entryMap\<close> maps a path to the
  description of the entry that has it. The loop over the links stores the entry before it
  looks for a link above it; the other two store it after.
\<close>

fun checkFiles ::
  "deps \<Rightarrow> (string \<rightharpoonup> string) \<Rightarrow> string list \<Rightarrow> old_File list \<Rightarrow> (string \<rightharpoonup> string)
     \<Rightarrow> translate_error + (string \<rightharpoonup> string)" where
  "checkFiles d fsMap links [] entryMap = Inr entryMap"
| "checkFiles d fsMap links (file # rest) entryMap =
     (let pathString = nodePath fsMap (old_File_Node file);
          name = ''File: '' @ pathString in
      case entryMap pathString of
        Some duplicate \<Rightarrow> Inl (DuplicateInodeError duplicate name)
      | None \<Rightarrow>
          (let l = CheckPathUsesLink d links pathString in
           if l \<noteq> [] then Inl (UsesOwnLinkError l name)
           else checkFiles d fsMap links rest (entryMap(pathString \<mapsto> name))))"

fun checkDirectories ::
  "deps \<Rightarrow> (string \<rightharpoonup> string) \<Rightarrow> string list \<Rightarrow> old_Directory list \<Rightarrow> (string \<rightharpoonup> string)
     \<Rightarrow> translate_error + (string \<rightharpoonup> string)" where
  "checkDirectories d fsMap links [] entryMap = Inr entryMap"
| "checkDirectories d fsMap links (dir # rest) entryMap =
     (let pathString = nodePath fsMap (old_Directory_Node dir);
          name = ''Directory: '' @ pathString in
      case entryMap pathString of
        Some duplicate \<Rightarrow> Inl (DuplicateInodeError duplicate name)
      | None \<Rightarrow>
          (let l = CheckPathUsesLink d links pathString in
           if l \<noteq> [] then Inl (UsesOwnLinkError l name)
           else checkDirectories d fsMap links rest (entryMap(pathString \<mapsto> name))))"

fun checkLinks ::
  "deps \<Rightarrow> (string \<rightharpoonup> string) \<Rightarrow> string list \<Rightarrow> old_Link list \<Rightarrow> (string \<rightharpoonup> string)
     \<Rightarrow> translate_error + (string \<rightharpoonup> string)" where
  "checkLinks d fsMap links [] entryMap = Inr entryMap"
| "checkLinks d fsMap links (link # rest) entryMap =
     (let pathString = nodePath fsMap (old_Link_Node link);
          name = ''Link: '' @ pathString in
      case entryMap pathString of
        Some duplicate \<Rightarrow> Inl (DuplicateInodeError duplicate name)
      | None \<Rightarrow>
          (let entryMap' = entryMap(pathString \<mapsto> name);
               l = CheckPathUsesLink d links pathString in
           if l \<noteq> [] then Inl (UsesOwnLinkError l name)
           else checkLinks d fsMap links rest entryMap'))"

text \<open>The loops over the units and over the drop-ins of one unit.\<close>

fun checkDropins :: "string \<Rightarrow> old_SystemdDropin list \<Rightarrow> string set \<Rightarrow> translate_error option" where
  "checkDropins unit [] dropinMap = None"
| "checkDropins unit (dropin # rest) dropinMap =
     (if old_SystemdDropin_Name dropin \<in> dropinMap
      then Some (DuplicateDropinError unit (old_SystemdDropin_Name dropin))
      else checkDropins unit rest (insert (old_SystemdDropin_Name dropin) dropinMap))"

fun checkUnits :: "old_Unit list \<Rightarrow> string set \<Rightarrow> translate_error option" where
  "checkUnits [] unitMap = None"
| "checkUnits (unit # rest) unitMap =
     (if old_Unit_Name unit \<in> unitMap then Some (DuplicateUnitError (old_Unit_Name unit))
      else
        (case checkDropins (old_Unit_Name unit) (old_Unit_Dropins unit) {} of
           Some err \<Rightarrow> Some err
         | None \<Rightarrow> checkUnits rest (insert (old_Unit_Name unit) unitMap)))"

text \<open>
  \<open>Check2_4(cfg, fsMap)\<close>. The map argument is \<open>None\<close> for a nil map. The function
  writes to the map it is given when that is not nil, so the result on success is the map
  after the writes (with \<open>root\<close> mapped to \<open>/\<close>).
\<close>

definition Check2_4 ::
  "deps \<Rightarrow> old_Config \<Rightarrow> (string \<rightharpoonup> string) option \<Rightarrow> translate_error + (string \<rightharpoonup> string)" where
  "Check2_4 d cfg fsMap0 =
     (let rpt = ValidateWithoutSource d cfg in
      if IsFatal rpt \<or> IsDeprecated rpt then Inl (InvalidInputConfig rpt)
      else if length (old_Config_Networkd_Units cfg) \<noteq> 0 then Inl UsesNetworkdError
      else
        (let fsMap1 = (case fsMap0 of None \<Rightarrow> Map.empty | Some m \<Rightarrow> m);
             fsMap2 = fsMap1(''root'' \<mapsto> ''/'') in
         case checkFilesystems d (old_Storage_Filesystems (old_Config_Storage cfg)) fsMap2 of
           Inl err \<Rightarrow> Inl err
         | Inr fsMap \<Rightarrow>
             (let links = map (\<lambda>link. nodePath fsMap (old_Link_Node link))
                            (old_Storage_Links (old_Config_Storage cfg)) in
              case checkFiles d fsMap links
                     (old_Storage_Files (old_Config_Storage cfg)) Map.empty of
                Inl err \<Rightarrow> Inl err
              | Inr entryMap1 \<Rightarrow>
                  (case checkDirectories d fsMap links
                          (old_Storage_Directories (old_Config_Storage cfg)) entryMap1 of
                     Inl err \<Rightarrow> Inl err
                   | Inr entryMap2 \<Rightarrow>
                       (case checkLinks d fsMap links
                               (old_Storage_Links (old_Config_Storage cfg)) entryMap2 of
                          Inl err \<Rightarrow> Inl err
                        | Inr entryMap3 \<Rightarrow>
                            (case checkUnits (old_Config_Systemd_Units cfg) {} of
                               Some err \<Rightarrow> Inl err
                             | None \<Rightarrow> Inr fsMap))))))"

section \<open>\<open>Translate\<close> (v24tov31.go)\<close>

definition translateDropins :: "old_SystemdDropin list \<Rightarrow> v3_Dropin list" where
  "translateDropins dropins =
     map (\<lambda>d. \<lparr>v3_Dropin_Name = old_SystemdDropin_Name d,
               v3_Dropin_Contents = StrP (old_SystemdDropin_Contents d)\<rparr>) dropins"

text \<open>
  The body of the loop of \<open>translateUnits\<close>: \<open>enabled\<close> starts as nil, is set to
  \<open>BoolP(true)\<close> by the first test and to \<open>BoolPStrict(false)\<close> by the second.
\<close>

definition translateUnit :: "old_Unit \<Rightarrow> v3_Unit" where
  "translateUnit u =
     (let enabled0 = None;
          enabled1 = (if (old_Unit_Enabled u \<noteq> None \<and> the (old_Unit_Enabled u)) \<or> old_Unit_Enable u
                      then BoolP True else enabled0);
          enabled = (if old_Unit_Enabled u \<noteq> None \<and> \<not> the (old_Unit_Enabled u)
                     then BoolPStrict False else enabled1)
      in \<lparr>v3_Unit_Name = old_Unit_Name u,
          v3_Unit_Enabled = enabled,
          v3_Unit_Mask = BoolP (old_Unit_Mask u),
          v3_Unit_Contents = StrP (old_Unit_Contents u),
          v3_Unit_Dropins = translateDropins (old_Unit_Dropins u)\<rparr>)"

definition translateUnits :: "old_Unit list \<Rightarrow> v3_Unit list" where
  "translateUnits units = map translateUnit units"

text \<open>
  \<open>translateFilesystems\<close>: \<open>root\<close> is skipped; a nil \<open>mount\<close> is read as the zero
  \<open>Mount\<close>; a \<open>create\<close> object replaces the wipe flag by its \<open>force\<close> and appends its
  options; \<open>oem\<close> without a wipe gets the format \<open>btrfs\<close>.
\<close>

definition zeroMount :: old_Mount where
  "zeroMount =
     \<lparr>old_Mount_Device = [], old_Mount_Format = [], old_Mount_WipeFilesystem = False,
      old_Mount_Label = None, old_Mount_UUID = None, old_Mount_Options = [],
      old_Mount_Create = None\<rparr>"

definition translateFilesystem :: "(string \<rightharpoonup> string) \<Rightarrow> old_Filesystem \<Rightarrow> v3_Filesystem" where
  "translateFilesystem m f =
     (let mount = (case old_Filesystem_Mount f of None \<Rightarrow> zeroMount | Some mnt \<Rightarrow> mnt);
          wipe0 = BoolP (old_Mount_WipeFilesystem mount);
          options0 = old_Mount_Options mount;
          wipe = (case old_Mount_Create mount of
                    None \<Rightarrow> wipe0
                  | Some c \<Rightarrow> BoolP (old_Create_Force c));
          options = (case old_Mount_Create mount of
                       None \<Rightarrow> options0
                     | Some c \<Rightarrow> options0 @ old_Create_Options c);
          format0 = old_Mount_Format mount;
          format1 = (if old_Filesystem_Name f = ''oem'' \<and> (wipe = None \<or> \<not> the wipe)
                     then ''btrfs'' else format0)
      in \<lparr>v3_Filesystem_Device = old_Mount_Device mount,
          v3_Filesystem_Format = StrP format1,
          v3_Filesystem_WipeFilesystem = wipe,
          v3_Filesystem_Label = old_Mount_Label mount,
          v3_Filesystem_UUID = old_Mount_UUID mount,
          v3_Filesystem_Options = options,
          v3_Filesystem_Path = StrP (lookup m (old_Filesystem_Name f))\<rparr>)"

fun translateFilesystems :: "old_Filesystem list \<Rightarrow> (string \<rightharpoonup> string) \<Rightarrow> v3_Filesystem list" where
  "translateFilesystems [] m = []"
| "translateFilesystems (f # fss) m =
     (if old_Filesystem_Name f = ''root'' then translateFilesystems fss m
      else translateFilesystem m f # translateFilesystems fss m)"

definition translateNode :: "old_Node \<Rightarrow> (string \<rightharpoonup> string) \<Rightarrow> v3_Node" where
  "translateNode n m =
     (let user = (case old_Node_User n of
                    None \<Rightarrow> \<lparr>old_NodeUser_ID = None, old_NodeUser_Name = []\<rparr>
                  | Some u \<Rightarrow> u);
          group = (case old_Node_Group n of
                     None \<Rightarrow> \<lparr>old_NodeGroup_ID = None, old_NodeGroup_Name = []\<rparr>
                   | Some g \<Rightarrow> g)
      in \<lparr>v3_Node_Path = path_Join [lookup m (old_Node_Filesystem n), old_Node_Path n],
          v3_Node_User = \<lparr>v3_NodeUser_ID = old_NodeUser_ID user,
                          v3_NodeUser_Name = StrP (old_NodeUser_Name user)\<rparr>,
          v3_Node_Group = \<lparr>v3_NodeGroup_ID = old_NodeGroup_ID group,
                           v3_NodeGroup_Name = StrP (old_NodeGroup_Name group)\<rparr>,
          v3_Node_Overwrite = old_Node_Overwrite n\<rparr>)"

definition translateHTTPHeaders :: "old_HTTPHeader list \<Rightarrow> v3_HTTPHeader list" where
  "translateHTTPHeaders headers =
     map (\<lambda>h. \<lparr>v3_HTTPHeader_Name = old_HTTPHeader_Name h,
               v3_HTTPHeader_Value = StrP (old_HTTPHeader_Value h)\<rparr>) headers"

definition zeroResource :: v3_Resource where
  "zeroResource =
     \<lparr>v3_Resource_Compression = None, v3_Resource_Source = None,
      v3_Resource_HTTPHeaders = [], v3_Resource_Verification_Hash = None\<rparr>"

text \<open>
  The body of the loop of \<open>translateFiles\<close>: a missing \<open>overwrite\<close> becomes
  \<open>BoolP(true)\<close>, then \<open>append\<close> sets it to \<open>BoolPStrict(false)\<close>; the contents go
  to \<open>Append\<close> or to \<open>Contents\<close>, the other keeps its zero value.
\<close>

definition translateFile :: "(string \<rightharpoonup> string) \<Rightarrow> old_File \<Rightarrow> v3_File" where
  "translateFile m f =
     (let node0 = old_File_Node f;
          node1 = (if old_Node_Overwrite node0 = None
                   then node0\<lparr>old_Node_Overwrite := BoolP True\<rparr> else node0);
          node2 = (if old_File_Append f
                   then node1\<lparr>old_Node_Overwrite := BoolPStrict False\<rparr> else node1);
          c = \<lparr>v3_Resource_Compression =
                 StrP (old_FileContents_Compression (old_File_Contents f)),
               v3_Resource_Source =
                 StrPStrict (old_FileContents_Source (old_File_Contents f)),
               v3_Resource_HTTPHeaders =
                 translateHTTPHeaders (old_FileContents_HTTPHeaders (old_File_Contents f)),
               v3_Resource_Verification_Hash =
                 old_FileContents_Verification_Hash (old_File_Contents f)\<rparr>
      in \<lparr>v3_File_Node = translateNode node2 m,
          v3_File_Append = (if old_File_Append f then [c] else []),
          v3_File_Contents = (if old_File_Append f then zeroResource else c),
          v3_File_Mode = old_File_Mode f\<rparr>)"

definition translateFiles :: "old_File list \<Rightarrow> (string \<rightharpoonup> string) \<Rightarrow> v3_File list" where
  "translateFiles files m = map (translateFile m) files"

definition translateLinks :: "old_Link list \<Rightarrow> (string \<rightharpoonup> string) \<Rightarrow> v3_Link list" where
  "translateLinks links m =
     map (\<lambda>l. \<lparr>v3_Link_Node = translateNode (old_Link_Node l) m,
               v3_Link_Hard = BoolP (old_Link_Hard l),
               v3_Link_Target = old_Link_Target l\<rparr>) links"

definition translateDirectories :: "old_Directory list \<Rightarrow> (string \<rightharpoonup> string) \<Rightarrow> v3_Directory list" where
  "translateDirectories dirs m =
     map (\<lambda>x. \<lparr>v3_Directory_Node = translateNode (old_Directory_Node x) m,
               v3_Directory_Mode = old_Directory_Mode x\<rparr>) dirs"

text \<open>
  \<open>Translate(cfg, fsMap)\<close>. After the check the translation reads the caller's map: the
  map as \<open>Check2_4\<close> left it, or, for a nil map, a map without any key.
\<close>

definition Translate ::
  "deps \<Rightarrow> old_Config \<Rightarrow> (string \<rightharpoonup> string) option \<Rightarrow> translate_error + v3_Config" where
  "Translate d cfg fsMap0 =
     (case Check2_4 d cfg fsMap0 of
        Inl err \<Rightarrow> Inl err
      | Inr checked \<Rightarrow>
          (let fsMap = (case fsMap0 of None \<Rightarrow> Map.empty | Some m \<Rightarrow> checked);
               res = \<lparr>v3_Config_Ignition_Version = ''3.1.0'',
                      v3_Config_Systemd_Units = translateUnits (old_Config_Systemd_Units cfg),
                      v3_Config_Storage =
                        \<lparr>v3_Storage_Filesystems =
                           translateFilesystems
                             (old_Storage_Filesystems (old_Config_Storage cfg)) fsMap,
                         v3_Storage_Files =
                           translateFiles (old_Storage_Files (old_Config_Storage cfg)) fsMap,
                         v3_Storage_Directories =
                           translateDirectories
                             (old_Storage_Directories (old_Config_Storage cfg)) fsMap,
                         v3_Storage_Links =
                           translateLinks (old_Storage_Links (old_Config_Storage cfg)) fsMap\<rparr>\<rparr>;
               r = ValidateWithContext d res
           in if IsFatal r then Inl (InvalidTranslatedConfig r) else Inr res))"

section \<open>\<open>Parse\<close> (config/v3_4_experimental/config.go)\<close>

text \<open>
  A version as \<open>semver.Version\<close> holds it. The errors of \<open>config/shared/errors\<close> that
  \<open>Parse\<close> returns itself are constructors; any other error is given by its message.
\<close>

record Version =
  Major :: int
  Minor :: int
  Patch :: int
  PreRelease :: string
  Metadata :: string

datatype config_error = ErrEmpty | ErrUnknownVersion | ErrInvalid | OtherError string

text \<open>
  What \<open>Parse\<close> uses and the sources do not hold: the configuration type of the schema
  (the type variable) with its zero value and its version field, the JSON decoder
  \<open>util.HandleParseErrors\<close> (it returns the decoded configuration with its report and
  error), \<open>semver.NewVersion\<close> (\<open>None\<close> when it returns an error), the constant
  \<open>types.MaxVersion\<close> and the validator.
\<close>

record 'cfg parseDeps =
  zeroConfig :: 'cfg
  IgnitionVersion :: "'cfg \<Rightarrow> string"
  HandleParseErrors :: "string \<Rightarrow> 'cfg \<times> report \<times> config_error option"
  NewVersion :: "string \<Rightarrow> Version option"
  MaxVersion :: Version
  ValidateConfig :: "'cfg \<Rightarrow> string \<Rightarrow> report"

definition Parse :: "'cfg parseDeps \<Rightarrow> string \<Rightarrow> 'cfg \<times> report \<times> config_error option" where
  "Parse d rawConfig =
     (if length rawConfig = 0 then (zeroConfig d, [], Some ErrEmpty)
      else
        (case HandleParseErrors d rawConfig of
           (config, rpt, Some err) \<Rightarrow> (zeroConfig d, rpt, Some err)
         | (config, rpt0, None) \<Rightarrow>
             (let version = NewVersion d (IgnitionVersion d config) in
              if version = None \<or> the version \<noteq> MaxVersion d
              then (zeroConfig d, [], Some ErrUnknownVersion)
              else
                (let rpt = ValidateConfig d config rawConfig in
                 if IsFatal rpt then (zeroConfig d, rpt, Some ErrInvalid)
                 else (config, rpt, None)))))"

section \<open>Translation: the entries in checking order, and sample inputs\<close>

text \<open>
  The path and the description of every file, directory and link, in the order in which
  \<open>Check2_4\<close> visits them; \<open>checkEntries\<close> is the test that each of the three loops
  applies to an entry, as one loop over that list.
\<close>

definition fileEntry :: "(string \<rightharpoonup> string) \<Rightarrow> old_File \<Rightarrow> string \<times> string" where
  "fileEntry fsMap f =
     (nodePath fsMap (old_File_Node f), ''File: '' @ nodePath fsMap (old_File_Node f))"

definition directoryEntry :: "(string \<rightharpoonup> string) \<Rightarrow> old_Directory \<Rightarrow> string \<times> string" where
  "directoryEntry fsMap x =
     (nodePath fsMap (old_Directory_Node x),
      ''Directory: '' @ nodePath fsMap (old_Directory_Node x))"

definition linkEntry :: "(string \<rightharpoonup> string) \<Rightarrow> old_Link \<Rightarrow> string \<times> string" where
  "linkEntry fsMap l =
     (nodePath fsMap (old_Link_Node l), ''Link: '' @ nodePath fsMap (old_Link_Node l))"

definition entriesOf :: "(string \<rightharpoonup> string) \<Rightarrow> old_Config \<Rightarrow> (string \<times> string) list" where
  "entriesOf fsMap cfg =
     map (fileEntry fsMap) (old_Storage_Files (old_Config_Storage cfg)) @
     map (directoryEntry fsMap) (old_Storage_Directories (old_Config_Storage cfg)) @
     map (linkEntry fsMap) (old_Storage_Links (old_Config_Storage cfg))"

definition linkPaths :: "(string \<rightharpoonup> string) \<Rightarrow> old_Config \<Rightarrow> string list" where
  "linkPaths fsMap cfg =
     map (\<lambda>link. nodePath fsMap (old_Link_Node link))
       (old_Storage_Links (old_Config_Storage cfg))"

fun checkEntries ::
  "deps \<Rightarrow> string list \<Rightarrow> (string \<times> string) list \<Rightarrow> (string \<rightharpoonup> string)
     \<Rightarrow> translate_error + (string \<rightharpoonup> string)" where
  "checkEntries d links [] entryMap = Inr entryMap"
| "checkEntries d links ((p, name) # rest) entryMap =
     (case entryMap p of
        Some duplicate \<Rightarrow> Inl (DuplicateInodeError duplicate name)
      | None \<Rightarrow>
          (if CheckPathUsesLink d links p \<noteq> [] then
             Inl (UsesOwnLinkError (CheckPathUsesLink d links p) name)
           else checkEntries d links rest (entryMap(p \<mapsto> name))))"

text \<open>
  The checks that come before the entries: the report of the legacy validator, the networkd units and
  the loop over the filesystems; \<open>Inr\<close> the map with which the paths are computed.
\<close>

definition earlierChecks ::
  "deps \<Rightarrow> old_Config \<Rightarrow> (string \<rightharpoonup> string) option \<Rightarrow> translate_error + (string \<rightharpoonup> string)" where
  "earlierChecks d cfg fsMap0 =
     (if IsFatal (ValidateWithoutSource d cfg) \<or> IsDeprecated (ValidateWithoutSource d cfg)
      then Inl (InvalidInputConfig (ValidateWithoutSource d cfg))
      else if old_Config_Networkd_Units cfg \<noteq> [] then Inl UsesNetworkdError
      else checkFilesystems d (old_Storage_Filesystems (old_Config_Storage cfg))
             ((case fsMap0 of None \<Rightarrow> Map.empty | Some m \<Rightarrow> m)(''root'' \<mapsto> ''/'')))"

text \<open>
  Sample inputs. The validators of \<open>sampleDeps\<close> report nothing, its \<open>FSGeneration\<close>
  leaves the map as it is, and its \<open>CheckPathUsesLink\<close> is the one of the specification.
\<close>

definition sampleDeps :: deps where
  "sampleDeps =
     \<lparr>ValidateWithoutSource = (\<lambda>c. []),
      FSGeneration = (\<lambda>name m. Inr (name, m)),
      CheckPathUsesLink = specCheckPathUsesLink,
      ValidateWithContext = (\<lambda>c. [])\<rparr>"

definition rootNode :: "string \<Rightarrow> old_Node" where
  "rootNode p =
     \<lparr>old_Node_Filesystem = ''root'', old_Node_Path = p, old_Node_User = None,
      old_Node_Group = None, old_Node_Overwrite = None\<rparr>"

definition plainFile :: "string \<Rightarrow> old_File" where
  "plainFile p =
     \<lparr>old_File_Node = rootNode p, old_File_Append = False,
      old_File_Contents =
        \<lparr>old_FileContents_Compression = [], old_FileContents_Source = ''data:,hi'',
         old_FileContents_Verification_Hash = None, old_FileContents_HTTPHeaders = []\<rparr>,
      old_File_Mode = None\<rparr>"

definition plainDirectory :: "string \<Rightarrow> old_Directory" where
  "plainDirectory p = \<lparr>old_Directory_Node = rootNode p, old_Directory_Mode = None\<rparr>"

definition plainLink :: "string \<Rightarrow> string \<Rightarrow> old_Link" where
  "plainLink p t = \<lparr>old_Link_Node = rootNode p, old_Link_Hard = False, old_Link_Target = t\<rparr>"

definition storageConfig :: "old_File list \<Rightarrow> old_Directory list \<Rightarrow> old_Link list \<Rightarrow> old_Config" where
  "storageConfig files dirs links =
     \<lparr>old_Config_Networkd_Units = [], old_Config_Systemd_Units = [],
      old_Config_Storage =
        \<lparr>old_Storage_Filesystems = [], old_Storage_Files = files,
         old_Storage_Directories = dirs, old_Storage_Links = links\<rparr>\<rparr>"

definition rootMap :: "string \<rightharpoonup> string" where
  "rootMap = Map.empty(''root'' \<mapsto> ''/'')"

text \<open>
  The wipe flag of a legacy filesystem after its \<open>create\<close> object is applied: \<open>force\<close>
  of the object when there is one, \<open>wipeFilesystem\<close> otherwise.
\<close>

definition effectiveWipe :: "old_Filesystem \<Rightarrow> bool" where
  "effectiveWipe f =
     (case old_Filesystem_Mount f of
        None \<Rightarrow> False
      | Some mnt \<Rightarrow>
          (case old_Mount_Create mnt of
             None \<Rightarrow> old_Mount_WipeFilesystem mnt
           | Some c \<Rightarrow> old_Create_Force c))"

definition legacyFilesystem :: "string \<Rightarrow> string \<Rightarrow> string \<Rightarrow> old_Filesystem" where
  "legacyFilesystem name dev fmt =
     \<lparr>old_Filesystem_Name = name,
      old_Filesystem_Mount =
        Some (zeroMount\<lparr>old_Mount_Device := dev, old_Mount_Format := fmt\<rparr>),
      old_Filesystem_Path = None\<rparr>"

definition legacyUnit :: "string \<Rightarrow> bool \<Rightarrow> bool option \<Rightarrow> old_Unit" where
  "legacyUnit name enable enabled =
     \<lparr>old_Unit_Name = name, old_Unit_Enable = enable, old_Unit_Enabled = enabled,
      old_Unit_Mask = False, old_Unit_Contents = [], old_Unit_Dropins = []\<rparr>"

text \<open>
  A sample schema for \<open>Parse\<close>: a configuration is its version string; the decoder knows
  three well-formed inputs, decodes a fourth with a type error after its version, and
  rejects the rest; the maximal version is \<open>3.4.0-experimental\<close>.
\<close>

definition sampleParse :: "string parseDeps" where
  "sampleParse =
     \<lparr>zeroConfig = [],
      IgnitionVersion = (\<lambda>c. c),
      HandleParseErrors =
        (\<lambda>raw. if raw = ''{ignition:{version:3.4.0-experimental}}''
                 then (''3.4.0-experimental'', [], None)
               else if raw = ''{ignition:{version:3.3.0}}'' then (''3.3.0'', [], None)
               else if raw = ''{}'' then ([], [], None)
               else if raw = ''{ignition:{version:2.2.0},storage:5}''
                 then (''2.2.0'',
                       [(EntryError, ''json: cannot unmarshal number into Go struct field'')],
                       Some ErrInvalid)
               else ([], [(EntryError, ''invalid character'')], Some ErrInvalid)),
      NewVersion =
        (\<lambda>v. if v = ''3.4.0-experimental''
               then Some \<lparr>Major = 3, Minor = 4, Patch = 0, PreRelease = ''experimental'',
                          Metadata = []\<rparr>
             else if v = ''3.3.0''
               then Some \<lparr>Major = 3, Minor = 3, Patch = 0, PreRelease = [], Metadata = []\<rparr>
             else if v = ''2.2.0''
               then Some \<lparr>Major = 2, Minor = 2, Patch = 0, PreRelease = [], Metadata = []\<rparr>
             else None),
      MaxVersion =
        \<lparr>Major = 3, Minor = 4, Patch = 0, PreRelease = ''experimental'', Metadata = []\<rparr>,
      ValidateConfig = (\<lambda>c raw. [])\<rparr>"

section \<open>Properties\<close>

lemma lowerByte_not_upper: "isASCII c \<Longrightarrow> \<not> isUpperASCII (lowerByte c)"
  by (cases c) (auto simp: lowerByte_def isUpperASCII_def isASCII_def)


subsection \<open>UUID canonicalisation\<close>

lemma canonicalize_no_upper:
  "list_all isASCII x \<Longrightarrow>
     \<forall>c \<in> set (canonicalizeFilesystemUUID ul fmt x). \<not> isUpperASCII c"
  by (auto simp: canonicalizeFilesystemUUID_def ToLower_def Let_def list_all_iff
        lowerByte_not_upper dest!: in_set_takeD in_set_dropD)

text \<open>
  Claim C9. \<open>canonicalizeFilesystemUUID\<close> returns the lower-cased input for every format
  other than \<open>vfat\<close>; for \<open>vfat\<close> it returns the lower-cased input without its byte at
  index 4 when that byte is a dash, and the lower-cased input otherwise. On an ASCII input
  the lower-cased string is the input with \<open>A..Z\<close> moved to \<open>a..z\<close>, so the result has no
  upper-case letter. \<open>A1B2-C3D4\<close> gives \<open>a1b2c3d4\<close> for \<open>vfat\<close> and \<open>a1b2-c3d4\<close>
  for \<open>ext4\<close>.
\<close>

theorem canonicalizeFilesystemUUID_lowercases:
  "(fmt \<noteq> ''vfat'' \<longrightarrow>
      canonicalizeFilesystemUUID ul fmt x = ToLower ul x) \<and>
   (5 \<le> length (ToLower ul x) \<and> ToLower ul x ! 4 = CHR ''-'' \<longrightarrow>
      canonicalizeFilesystemUUID ul ''vfat'' x =
        take 4 (ToLower ul x) @ drop 5 (ToLower ul x)) \<and>
   (\<not> (5 \<le> length (ToLower ul x) \<and> ToLower ul x ! 4 = CHR ''-'') \<longrightarrow>
      canonicalizeFilesystemUUID ul ''vfat'' x = ToLower ul x) \<and>
   (list_all isASCII x \<longrightarrow>
      ToLower ul x = map lowerByte x \<and>
      (\<forall>c \<in> set (canonicalizeFilesystemUUID ul fmt x). \<not> isUpperASCII c)) \<and>
   canonicalizeFilesystemUUID ul ''vfat'' ''A1B2-C3D4'' = ''a1b2c3d4'' \<and>
   canonicalizeFilesystemUUID ul ''ext4'' ''A1B2-C3D4'' = ''a1b2-c3d4''"
proof -
  have ex1: "canonicalizeFilesystemUUID ul ''vfat'' ''A1B2-C3D4'' = ''a1b2c3d4''"
    by code_simp
  have ex2: "canonicalizeFilesystemUUID ul ''ext4'' ''A1B2-C3D4'' = ''a1b2-c3d4''"
    by code_simp
  have gen: "list_all isASCII x \<longrightarrow>
      ToLower ul x = map lowerByte x \<and>
      (\<forall>c \<in> set (canonicalizeFilesystemUUID ul fmt x). \<not> isUpperASCII c)"
    using canonicalize_no_upper [of x ul fmt] by (simp add: ToLower_def)
  have nv: "fmt \<noteq> ''vfat'' \<longrightarrow> canonicalizeFilesystemUUID ul fmt x = ToLower ul x"
    by (simp add: canonicalizeFilesystemUUID_def Let_def)
  have v1: "5 \<le> length (ToLower ul x) \<and> ToLower ul x ! 4 = CHR ''-'' \<longrightarrow>
      canonicalizeFilesystemUUID ul ''vfat'' x =
        take 4 (ToLower ul x) @ drop 5 (ToLower ul x)"
    by (simp add: canonicalizeFilesystemUUID_def Let_def)
  have v2: "\<not> (5 \<le> length (ToLower ul x) \<and> ToLower ul x ! 4 = CHR ''-'') \<longrightarrow>
      canonicalizeFilesystemUUID ul ''vfat'' x = ToLower ul x"
    by (simp add: canonicalizeFilesystemUUID_def Let_def)
  from nv v1 v2 gen ex1 ex2 show ?thesis by blast
qed

theorem canonicalizeFilesystemUUID_lowercases_witness:
  "list_all isASCII ''AbCd-EF01'' \<and>
   ToLower (\<lambda>x. x) ''AbCd-EF01'' = ''abcd-ef01'' \<and>
   5 \<le> length (ToLower (\<lambda>x. x) ''AbCd-EF01'') \<and>
   ToLower (\<lambda>x. x) ''AbCd-EF01'' ! 4 = CHR ''-'' \<and>
   canonicalizeFilesystemUUID (\<lambda>x. x) ''vfat'' ''AbCd-EF01'' = ''abcdef01'' \<and>
   canonicalizeFilesystemUUID (\<lambda>x. x) ''xfs'' ''AbCd-EF01'' = ''abcd-ef01'' \<and>
   \<not> (5 \<le> length (ToLower (\<lambda>x. x) ''AbCd'')) \<and>
   canonicalizeFilesystemUUID (\<lambda>x. x) ''vfat'' ''AbCd'' = ''abcd''"
proof -
  have a: "list_all isASCII ''AbCd-EF01''" by code_simp
  have l: "ToLower (\<lambda>x. x) ''AbCd-EF01'' = ''abcd-ef01''" by code_simp
  have l2: "ToLower (\<lambda>x. x) ''AbCd'' = ''abcd''" by code_simp
  have nv: "''xfs'' \<noteq> ''vfat''" by simp
  show ?thesis
    using a l l2 nv
      canonicalizeFilesystemUUID_lowercases [of "''xfs''" "\<lambda>x. x" "''AbCd-EF01''"]
      canonicalizeFilesystemUUID_lowercases [of "''vfat''" "\<lambda>x. x" "''AbCd''"]
    by simp
qed

subsection \<open>Keeping an existing filesystem\<close>

lemma readFilesystemInfo_events:
  "readFilesystemInfo s fs = (ev0, r) \<Longrightarrow>
     \<forall>e \<in> set ev0. \<exists>a. e = Log Info ''found %s filesystem at %q with uuid %q and label %q'' a"
  by (auto simp: readFilesystemInfo_def split: sum.splits)

lemma cleanFilesystemExcept_events:
  "e \<in> set (fst (cleanFilesystemExcept s fs)) \<Longrightarrow>
     (\<exists>a. e = Log Info ''filesystem at %q needs to be cleaned, preserving only %q'' a) \<or>
     (\<exists>d m f k p. e = MountAndWalk d m f k p)"
  by (auto simp: cleanFilesystemExcept_def Let_def split: sum.splits prod.splits)

lemma runMkfs_events: "e \<in> set (fst (runMkfs s fs)) \<Longrightarrow> isExec e"
  by (auto simp: runMkfs_def Let_def isExec_def split: option.splits prod.splits)

lemma runMkfs_invokes: "list_ex isExec (fst (runMkfs s fs)) \<longleftrightarrow> mkfsCommand s fs \<noteq> None"
  by (auto simp: runMkfs_def Let_def isExec_def split: option.splits prod.splits)

lemma alreadyFormatted_code:
  "((format info = Format fs \<or> label info = ''OEM'') \<and>
    (Label fs = None \<or> label info = the (Label fs)) \<and>
    (UUID fs = None \<or>
     canonicalizeFilesystemUUID (unicodeLower s) (format info) (uuid info) =
     canonicalizeFilesystemUUID (unicodeLower s) (Format fs) (the (UUID fs))))
   = alreadyFormatted s fs info"
  by (auto simp: alreadyFormatted_def split: option.splits)

lemma createFilesystem_no_create:
  assumes "Create fs = None" "\<not> WipeFilesystem fs" "readFilesystemInfo s fs = (ev0, Inr info)"
  shows "createFilesystem s fs =
     (if alreadyFormatted s fs info then
        (let ev1 = ev0 @ [Log Info
                ''filesystem at %q is already correctly formatted. Skipping mkfs...''
                [Device fs]] in
         if length (CleanExcept fs) > 0 then
           (ev1 @ fst (cleanFilesystemExcept s fs), snd (cleanFilesystemExcept s fs))
         else (ev1, None))
      else if format info \<noteq> [] then
        (ev0 @ [Log Error_level
           ''filesystem at %q is not of the correct type, label, or UUID (found %s, %q, %s) and a filesystem wipe was not requested''
           [Device fs, format info, label info, uuid info]],
         Some ErrBadFilesystem)
      else (ev0 @ fst (runMkfs s fs), snd (runMkfs s fs)))"
  unfolding createFilesystem_def alreadyFormatted_code using assms by simp

text \<open>
  Claim C1. For a mount without \<open>create\<close> block and with \<open>wipeFilesystem\<close> false whose
  device was probed successfully: the stage takes its \<open>Skipping mkfs\<close> branch exactly when
  the probed filesystem matches (format equal or probed label \<open>OEM\<close>, label absent or
  equal, UUID absent or canonically equal); then it runs no command and returns success, or
  what \<open>cleanFilesystemExcept\<close> returns when \<open>cleanExcept\<close> is not empty. When the
  filesystem does not match and the probed format is not empty it runs no command and
  returns \<open>ErrBadFilesystem\<close>. When it does not match and the probed format is empty it
  goes on to mkfs, which runs a command exactly when the format is a supported one.
\<close>

theorem createFilesystem_existing:
  assumes "Create fs = None" and "\<not> WipeFilesystem fs"
    and "readFilesystemInfo s fs = (ev0, Inr info)"
  shows "(skipsMkfs fs (createFilesystem s fs) \<longleftrightarrow> alreadyFormatted s fs info) \<and>
         (alreadyFormatted s fs info \<longrightarrow>
            \<not> invokesMkfs (createFilesystem s fs) \<and>
            snd (createFilesystem s fs) =
              (if CleanExcept fs = [] then None else snd (cleanFilesystemExcept s fs))) \<and>
         (\<not> alreadyFormatted s fs info \<and> format info \<noteq> [] \<longrightarrow>
            \<not> invokesMkfs (createFilesystem s fs) \<and>
            snd (createFilesystem s fs) = Some ErrBadFilesystem) \<and>
         (\<not> alreadyFormatted s fs info \<and> format info = [] \<longrightarrow>
            createFilesystem s fs = (ev0 @ fst (runMkfs s fs), snd (runMkfs s fs)) \<and>
            (invokesMkfs (createFilesystem s fs) \<longleftrightarrow> mkfsCommand s fs \<noteq> None))"
proof -
  note cf = createFilesystem_no_create [OF assms]
  have ev0: "\<And>e. e \<in> set ev0 \<Longrightarrow> \<not> isExec e \<and>
      e \<noteq> Log Info ''filesystem at %q is already correctly formatted. Skipping mkfs...''
            [Device fs]"
    using readFilesystemInfo_events [OF assms(3)] by (auto simp: isExec_def)
  have cl: "\<And>e. e \<in> set (fst (cleanFilesystemExcept s fs)) \<Longrightarrow> \<not> isExec e"
    using cleanFilesystemExcept_events by (fastforce simp: isExec_def)
  have mk: "\<And>e. e \<in> set (fst (runMkfs s fs)) \<Longrightarrow>
      e \<noteq> Log Info ''filesystem at %q is already correctly formatted. Skipping mkfs...''
            [Device fs]"
    using runMkfs_events by (fastforce simp: isExec_def)
  show ?thesis
  proof (cases "alreadyFormatted s fs info")
    case True
    then show ?thesis using cf ev0 cl
      by (auto simp: skipsMkfs_def invokesMkfs_def Let_def list_ex_iff isExec_def)
  next
    case False
    show ?thesis
    proof (cases "format info = []")
      case True
      then show ?thesis using cf False ev0 mk runMkfs_invokes [of s fs]
        by (auto simp: skipsMkfs_def invokesMkfs_def Let_def list_ex_iff)
    next
      case nonempty: False
      then show ?thesis using cf False ev0
        by (auto simp: skipsMkfs_def invokesMkfs_def Let_def list_ex_iff isExec_def)
    qed
  qed
qed

text \<open>
  On the sample machine. The scenario of the specification: the device holds \<open>ext4\<close>
  with label \<open>DATA\<close> and UUID \<open>u\<close> and the configuration asks for the same without a
  wipe; no mkfs, success. The same device asked to be \<open>xfs\<close>: \<open>ErrBadFilesystem\<close>. A
  blank device: mkfs runs.
\<close>

theorem createFilesystem_existing_witness:
  "Create dataMount = None \<and> \<not> WipeFilesystem dataMount \<and>
   readFilesystemInfo sampleStage dataMount =
     ([Log Info ''found %s filesystem at %q with uuid %q and label %q''
         [''ext4'', ''/dev/sdb1'', ''u'', ''DATA'']],
      Inr \<lparr>format = ''ext4'', uuid = ''u'', label = ''DATA''\<rparr>) \<and>
   alreadyFormatted sampleStage dataMount \<lparr>format = ''ext4'', uuid = ''u'', label = ''DATA''\<rparr> \<and>
   skipsMkfs dataMount (createFilesystem sampleStage dataMount) \<and>
   \<not> invokesMkfs (createFilesystem sampleStage dataMount) \<and>
   snd (createFilesystem sampleStage dataMount) = None \<and>
   \<not> alreadyFormatted sampleStage (dataMount\<lparr>Format := ''xfs''\<rparr>)
       \<lparr>format = ''ext4'', uuid = ''u'', label = ''DATA''\<rparr> \<and>
   \<not> skipsMkfs (dataMount\<lparr>Format := ''xfs''\<rparr>)
       (createFilesystem sampleStage (dataMount\<lparr>Format := ''xfs''\<rparr>)) \<and>
   \<not> invokesMkfs (createFilesystem sampleStage (dataMount\<lparr>Format := ''xfs''\<rparr>)) \<and>
   snd (createFilesystem sampleStage (dataMount\<lparr>Format := ''xfs''\<rparr>)) =
     Some ErrBadFilesystem \<and>
   readFilesystemInfo sampleStage (ext4Mount ''/dev/sda1'') =
     ([Log Info ''found %s filesystem at %q with uuid %q and label %q''
         [[], ''/dev/sda1'', [], []]],
      Inr \<lparr>format = [], uuid = [], label = []\<rparr>) \<and>
   \<not> skipsMkfs (ext4Mount ''/dev/sda1'') (createFilesystem sampleStage (ext4Mount ''/dev/sda1'')) \<and>
   invokesMkfs (createFilesystem sampleStage (ext4Mount ''/dev/sda1''))"
proof -
  let ?info = "\<lparr>format = ''ext4'', uuid = ''u'', label = ''DATA''\<rparr>"
  let ?ev = "[Log Info ''found %s filesystem at %q with uuid %q and label %q''
               [''ext4'', ''/dev/sdb1'', ''u'', ''DATA'']]"
  let ?xfs = "dataMount\<lparr>Format := ''xfs''\<rparr>"
  let ?blank = "ext4Mount ''/dev/sda1''"
  let ?none = "\<lparr>format = [], uuid = [], label = []\<rparr>"
  have h1: "Create dataMount = None" by (simp add: dataMount_def ext4Mount_def)
  have h2: "\<not> WipeFilesystem dataMount" by (simp add: dataMount_def ext4Mount_def)
  have h3: "readFilesystemInfo sampleStage dataMount = (?ev, Inr ?info)"
    by (simp add: readFilesystemInfo_def sampleStage_def dataMount_def ext4Mount_def)
  have h4: "alreadyFormatted sampleStage dataMount ?info"
    by (simp add: alreadyFormatted_def sampleStage_def dataMount_def ext4Mount_def)
  have h5: "CleanExcept dataMount = []" by (simp add: dataMount_def ext4Mount_def)
  have x1: "Create ?xfs = None" by (simp add: dataMount_def ext4Mount_def)
  have x2: "\<not> WipeFilesystem ?xfs" by (simp add: dataMount_def ext4Mount_def)
  have x3: "readFilesystemInfo sampleStage ?xfs = (?ev, Inr ?info)"
    by (simp add: readFilesystemInfo_def sampleStage_def dataMount_def ext4Mount_def)
  have x4: "\<not> alreadyFormatted sampleStage ?xfs ?info"
    by (simp add: alreadyFormatted_def sampleStage_def dataMount_def ext4Mount_def)
  have x5: "format ?info \<noteq> []" by simp
  have b1: "Create ?blank = None" by (simp add: ext4Mount_def)
  have b2: "\<not> WipeFilesystem ?blank" by (simp add: ext4Mount_def)
  have b3: "readFilesystemInfo sampleStage ?blank =
      ([Log Info ''found %s filesystem at %q with uuid %q and label %q''
          [[], ''/dev/sda1'', [], []]], Inr ?none)"
    by (simp add: readFilesystemInfo_def sampleStage_def ext4Mount_def)
  have b4: "\<not> alreadyFormatted sampleStage ?blank ?none"
    by (simp add: alreadyFormatted_def ext4Mount_def)
  have b5: "mkfsCommand sampleStage ?blank \<noteq> None"
    by (simp add: mkfsCommand_def ext4Mount_def)
  have b6: "format ?none = []" by simp
  have d: "skipsMkfs dataMount (createFilesystem sampleStage dataMount) \<and>
      \<not> invokesMkfs (createFilesystem sampleStage dataMount) \<and>
      snd (createFilesystem sampleStage dataMount) = None"
    using h4 h5 createFilesystem_existing [OF h1 h2 h3] by simp
  have x: "\<not> skipsMkfs ?xfs (createFilesystem sampleStage ?xfs) \<and>
      \<not> invokesMkfs (createFilesystem sampleStage ?xfs) \<and>
      snd (createFilesystem sampleStage ?xfs) = Some ErrBadFilesystem"
    using x4 x5 createFilesystem_existing [OF x1 x2 x3] by blast
  have b: "\<not> skipsMkfs ?blank (createFilesystem sampleStage ?blank) \<and>
      invokesMkfs (createFilesystem sampleStage ?blank)"
    using b4 b5 b6 createFilesystem_existing [OF b1 b2 b3] by blast
  show ?thesis using h1 h2 h3 h4 x4 b3 d x b by blast
qed

subsection \<open>The worker pool\<close>


lemma arrivalOrder_any:
  "mset ys = mset xs \<Longrightarrow> \<exists>ks. arrivalOrder ks xs = ys"
proof (induction ys arbitrary: xs)
  case Nil
  then show ?case by (intro exI [of _ "[]"]) simp
next
  case (Cons y ys)
  then have "y \<in> set xs" by (metis list.set_intros(1) set_mset_mset)
  then obtain i where i: "i < length xs" "xs ! i = y" by (auto simp: in_set_conv_nth)
  have "mset xs = add_mset y (mset (take i xs @ drop (Suc i) xs))"
    using i by (metis append_take_drop_id Cons_nth_drop_Suc mset.simps(2) mset_append union_mset_add_mset_right)
  with Cons.prems have "mset ys = mset (take i xs @ drop (Suc i) xs)" by simp
  from Cons.IH [OF this] obtain ks where ks: "arrivalOrder ks (take i xs @ drop (Suc i) xs) = ys" ..
  have "xs \<noteq> []" using i by auto
  then have "arrivalOrder (i # ks) xs = y # ys" using i ks by (simp add: Let_def)
  then show ?case ..
qed











subsection \<open>The fast path of \<open>Run\<close>\<close>

text \<open>
  Claim C8. When the configuration has no disk, no RAID array and exactly one filesystem
  entry, \<open>Run\<close> returns success and the list of events is empty: no wait for devices, no
  alias, no partitioning, no RAID creation, no command, whatever the sub-steps would do.
\<close>

theorem Run_fast_path:
  assumes "Disks (Storage config) = []" and "Raid (Storage config) = []"
    and "length (Filesystems (Storage config)) = 1"
  shows "Run s config = ([], None)"
  using assms by (simp add: Run_def)

text \<open>
  On the sample machine partitioning would leave an event; with the root filesystem alone
  nothing is run.
\<close>

theorem Run_fast_path_witness:
  "Disks (Storage rootOnly) = [] \<and> Raid (Storage rootOnly) = [] \<and>
   length (Filesystems (Storage rootOnly)) = 1 \<and>
   createPartitions sampleStage rootOnly = ([Partitioning], None) \<and>
   Run sampleStage rootOnly = ([], None)"
proof -
  have d: "Disks (Storage rootOnly) = []" by (simp add: rootOnly_def)
  have r: "Raid (Storage rootOnly) = []" by (simp add: rootOnly_def)
  have f: "length (Filesystems (Storage rootOnly)) = 1" by (simp add: rootOnly_def)
  have p: "createPartitions sampleStage rootOnly = ([Partitioning], None)"
    by (simp add: sampleStage_def)
  show ?thesis using d r f p Run_fast_path [OF d r f, of sampleStage] by simp
qed

subsection \<open>The checks on files, directories and links\<close>

text \<open>Each of the three loops applies the same test to its entries, one after the other.\<close>

lemma checkFiles_entries:
  "checkFiles d m links fs em = checkEntries d links (map (fileEntry m) fs) em"
  by (induction fs arbitrary: em) (auto simp: fileEntry_def Let_def split: option.splits)

lemma checkDirectories_entries:
  "checkDirectories d m links ds em = checkEntries d links (map (directoryEntry m) ds) em"
  by (induction ds arbitrary: em) (auto simp: directoryEntry_def Let_def split: option.splits)

lemma checkLinks_entries:
  "checkLinks d m links ls em = checkEntries d links (map (linkEntry m) ls) em"
  by (induction ls arbitrary: em) (auto simp: linkEntry_def Let_def split: option.splits)

lemma checkEntries_append:
  "checkEntries d links (xs @ ys) em =
     (case checkEntries d links xs em of
        Inl e \<Rightarrow> Inl e
      | Inr em' \<Rightarrow> checkEntries d links ys em')"
  by (induction xs arbitrary: em) (auto split: option.splits)

lemma Check2_4_entries:
  "Check2_4 d cfg fsMap0 =
     (case earlierChecks d cfg fsMap0 of
        Inl err \<Rightarrow> Inl err
      | Inr fsMap \<Rightarrow>
          (case checkEntries d (linkPaths fsMap cfg) (entriesOf fsMap cfg) Map.empty of
             Inl err \<Rightarrow> Inl err
           | Inr entryMap \<Rightarrow>
               (case checkUnits (old_Config_Systemd_Units cfg) {} of
                  Some err \<Rightarrow> Inl err
                | None \<Rightarrow> Inr fsMap)))"
  by (auto simp: Check2_4_def earlierChecks_def Let_def entriesOf_def linkPaths_def
        checkFiles_entries checkDirectories_entries checkLinks_entries checkEntries_append
      split: sum.splits option.splits)

text \<open>
  Entries with paths of their own that lie under no link pass the test and are recorded
  under their paths.
\<close>

lemma checkEntries_clean_prefix:
  assumes "distinct (map fst pre)"
    and "\<forall>q \<in> fst ` set pre. em q = None \<and> CheckPathUsesLink d links q = []"
  shows "\<exists>em'. checkEntries d links (pre @ rest) em = checkEntries d links rest em' \<and>
              (\<forall>q n. (q, n) \<in> set pre \<longrightarrow> em' q = Some n) \<and>
              (\<forall>q. q \<notin> fst ` set pre \<longrightarrow> em' q = em q)"
  using assms
proof (induction pre arbitrary: em)
  case Nil
  then show ?case by (intro exI [of _ em]) simp
next
  case (Cons e pre)
  obtain p name where e: "e = (p, name)" by (cases e)
  have d: "distinct (map fst pre)" and pn: "p \<notin> fst ` set pre"
    using Cons.prems(1) by (auto simp: e)
  have emp: "em p = None" and cp: "CheckPathUsesLink d links p = []"
    using Cons.prems(2) by (auto simp: e)
  have pre': "\<forall>q \<in> fst ` set pre. (em(p \<mapsto> name)) q = None \<and> CheckPathUsesLink d links q = []"
    using Cons.prems(2) pn by auto
  from Cons.IH [OF d pre'] obtain em' where
    em': "checkEntries d links (pre @ rest) (em(p \<mapsto> name)) = checkEntries d links rest em'"
      "\<forall>q n. (q, n) \<in> set pre \<longrightarrow> em' q = Some n"
      "\<forall>q. q \<notin> fst ` set pre \<longrightarrow> em' q = (em(p \<mapsto> name)) q"
    by blast
  have 1: "checkEntries d links ((e # pre) @ rest) em = checkEntries d links rest em'"
    using em'(1) emp cp by (simp add: e)
  have 2: "\<forall>q n. (q, n) \<in> set (e # pre) \<longrightarrow> em' q = Some n"
    using em'(2,3) pn by (auto simp: e)
  have 3: "\<forall>q. q \<notin> fst ` set (e # pre) \<longrightarrow> em' q = em q"
    using em'(3) by (auto simp: e)
  from 1 2 3 show ?case by blast
qed

lemma checkEntries_duplicate:
  assumes "distinct (map fst pre)"
    and "\<forall>q \<in> fst ` set pre. CheckPathUsesLink d links q = []"
    and "(p, old) \<in> set pre"
  shows "checkEntries d links (pre @ (p, new) # post) Map.empty =
           Inl (DuplicateInodeError old new)"
proof -
  from checkEntries_clean_prefix [of pre Map.empty d links "(p, new) # post"] assms(1,2)
  obtain em' where
    "checkEntries d links (pre @ (p, new) # post) Map.empty =
       checkEntries d links ((p, new) # post) em'"
    "\<forall>q n. (q, n) \<in> set pre \<longrightarrow> em' q = Some n"
    by auto
  then show ?thesis using assms(3) by simp
qed

lemma checkEntries_uses_link:
  assumes "distinct (map fst pre)"
    and "\<forall>q \<in> fst ` set pre. CheckPathUsesLink d links q = []"
    and "p \<notin> fst ` set pre"
    and "CheckPathUsesLink d links p \<noteq> []"
  shows "checkEntries d links (pre @ (p, name) # post) Map.empty =
           Inl (UsesOwnLinkError (CheckPathUsesLink d links p) name)"
proof -
  from checkEntries_clean_prefix [of pre Map.empty d links "(p, name) # post"] assms(1,2)
  obtain em' where
    "checkEntries d links (pre @ (p, name) # post) Map.empty =
       checkEntries d links ((p, name) # post) em'"
    "\<forall>q. q \<notin> fst ` set pre \<longrightarrow> em' q = Map.empty q"
    by auto
  then show ?thesis using assms(3,4) by simp
qed

text \<open>
  The helper of the specification returns a link exactly when one of the links is a proper
  prefix of the path.
\<close>

lemma specCheckPathUsesLink_prefix:
  "[] \<notin> set ls \<Longrightarrow>
     specCheckPathUsesLink ls p \<noteq> [] \<longleftrightarrow>
       (\<exists>l \<in> set ls. take (length l) p = l \<and> p \<noteq> l)"
  by (induction ls) auto

lemma sample_deps:
  "CheckPathUsesLink sampleDeps = specCheckPathUsesLink"
  "ValidateWithContext sampleDeps c = []"
  "ValidateWithoutSource sampleDeps c' = []"
  by (simp_all add: sampleDeps_def)

lemma sample_earlierChecks:
  "earlierChecks sampleDeps (storageConfig fs ds ls) (Some Map.empty) = Inr rootMap"
  by (simp add: earlierChecks_def sampleDeps_def storageConfig_def rootMap_def IsFatal_def
      IsDeprecated_def)

lemma sample_nodePath:
  "nodePath rootMap (rootNode ''/a'') = ''/a''"
  "nodePath rootMap (rootNode ''/d'') = ''/d''"
  "nodePath rootMap (rootNode ''/l'') = ''/l''"
  "nodePath rootMap (rootNode ''/l/x'') = ''/l/x''"
  "nodePath rootMap (rootNode ''/l/y'') = ''/l/y''"
  by (simp_all add: nodePath_def rootMap_def rootNode_def lookup_def path_Join_def Clean_def
      cleanStep_def Let_def)

lemmas sample_entries =
  entriesOf_def linkPaths_def storageConfig_def fileEntry_def directoryEntry_def linkEntry_def
  plainFile_def plainDirectory_def plainLink_def sample_nodePath

text \<open>
  The helper of the specification returns the first link that is a proper prefix of the
  path. The paths that \<open>Check2_4\<close> computes are never empty, so the empty string that the
  helper returns for "no link" is none of the declared links.
\<close>

lemma specCheckPathUsesLink_first:
  "[] \<notin> set ls \<Longrightarrow>
     specCheckPathUsesLink ls p =
       (case filter (\<lambda>l. properPrefix l p) ls of [] \<Rightarrow> [] | l # rest \<Rightarrow> l)"
  by (induction ls) (auto simp: properPrefix_def)

lemma Clean_nonempty: "Clean p \<noteq> []"
  by (simp add: Clean_def Let_def)

lemma nodePath_nonempty: "nodePath fsMap n \<noteq> []"
  by (simp add: nodePath_def path_Join_def Let_def Clean_nonempty)

lemma linkPaths_nonempty: "[] \<notin> set (linkPaths fsMap cfg)"
proof
  assume "[] \<in> set (linkPaths fsMap cfg)"
  then obtain link :: old_Link where "[] = nodePath fsMap (old_Link_Node link)"
    by (auto simp: linkPaths_def)
  then show False using nodePath_nonempty [of fsMap "old_Link_Node link"] by simp
qed

lemma specCheckPathUsesLink_none:
  "[] \<notin> set ls \<Longrightarrow> \<forall>l \<in> set ls. \<not> properPrefix l q \<Longrightarrow> specCheckPathUsesLink ls q = []"
  by (simp add: specCheckPathUsesLink_first filter_False)

lemma specCheckPathUsesLink_some:
  "[] \<notin> set ls \<Longrightarrow> \<exists>l \<in> set ls. properPrefix l p \<Longrightarrow>
     specCheckPathUsesLink ls p = hd (filter (\<lambda>l. properPrefix l p) ls) \<and>
     specCheckPathUsesLink ls p \<noteq> []"
proof -
  assume ne: "[] \<notin> set ls" and ex: "\<exists>l \<in> set ls. properPrefix l p"
  from ex have f: "filter (\<lambda>l. properPrefix l p) ls \<noteq> []"
    by (auto simp: filter_empty_conv)
  then obtain l rest where lr: "filter (\<lambda>l. properPrefix l p) ls = l # rest"
    by (cases "filter (\<lambda>l. properPrefix l p) ls") auto
  then have "l \<in> set (filter (\<lambda>l. properPrefix l p) ls)" by simp
  then have "l \<in> set ls" by simp
  with ne have "l \<noteq> []" by auto
  then show ?thesis using lr ne by (simp add: specCheckPathUsesLink_first)
qed

text \<open>
  Claim C2, as amended. The helper is the one of the specification. When the checks before
  the entries pass, the entries before a given one in the order of checking (files, then
  directories, then links) have paths different from each other of which no declared
  link's path is a proper prefix, and the given entry's path is none of theirs and has the
  path of a declared link as a proper prefix, then the translation fails with
  \<open>UsesOwnLink\<close> carrying the entry's description and the first such link in the order
  of declaration.
\<close>

theorem Translate_uses_own_link:
  assumes "CheckPathUsesLink d = specCheckPathUsesLink"
    and "earlierChecks d cfg fsMap0 = Inr fsMap"
    and "entriesOf fsMap cfg = pre @ (p, name) # post"
    and "distinct (map fst pre)"
    and "\<forall>q \<in> fst ` set pre. \<forall>l \<in> set (linkPaths fsMap cfg). \<not> properPrefix l q"
    and "p \<notin> fst ` set pre"
    and "\<exists>l \<in> set (linkPaths fsMap cfg). properPrefix l p"
  shows "Translate d cfg fsMap0 =
           Inl (UsesOwnLinkError
                  (hd (filter (\<lambda>l. properPrefix l p) (linkPaths fsMap cfg))) name)"
proof -
  let ?links = "linkPaths fsMap cfg"
  have clean: "\<forall>q \<in> fst ` set pre. CheckPathUsesLink d ?links q = []"
    using assms(1,5) specCheckPathUsesLink_none [OF linkPaths_nonempty] by simp
  note some = specCheckPathUsesLink_some [OF linkPaths_nonempty assms(7)]
  have found: "CheckPathUsesLink d ?links p = hd (filter (\<lambda>l. properPrefix l p) ?links)"
    using assms(1) some by simp
  have ne: "CheckPathUsesLink d ?links p \<noteq> []"
    using assms(1) some by metis
  from checkEntries_uses_link [OF assms(4) clean assms(6) ne, of name post] assms(2,3) found
  show ?thesis by (simp add: Translate_def Check2_4_entries)
qed

text \<open>
  The scenario of the specification, link \<open>/l\<close> and file \<open>/l/x\<close>, and the same after a
  file \<open>/a\<close> and before a directory \<open>/d\<close>.
\<close>

theorem Translate_uses_own_link_witness:
  "CheckPathUsesLink sampleDeps = specCheckPathUsesLink \<and>
   Translate sampleDeps (storageConfig [plainFile ''/l/x''] [] [plainLink ''/l'' ''/t''])
     (Some Map.empty) = Inl (UsesOwnLinkError ''/l'' ''File: /l/x'') \<and>
   earlierChecks sampleDeps
     (storageConfig [plainFile ''/a'', plainFile ''/l/x''] [plainDirectory ''/d'']
        [plainLink ''/l'' ''/t'']) (Some Map.empty) = Inr rootMap \<and>
   entriesOf rootMap
     (storageConfig [plainFile ''/a'', plainFile ''/l/x''] [plainDirectory ''/d'']
        [plainLink ''/l'' ''/t'']) =
     [(''/a'', ''File: /a'')] @ (''/l/x'', ''File: /l/x'') #
     [(''/d'', ''Directory: /d''), (''/l'', ''Link: /l'')] \<and>
   linkPaths rootMap
     (storageConfig [plainFile ''/a'', plainFile ''/l/x''] [plainDirectory ''/d'']
        [plainLink ''/l'' ''/t'']) = [''/l''] \<and>
   \<not> properPrefix ''/l'' ''/a'' \<and>
   properPrefix ''/l'' ''/l/x'' \<and>
   Translate sampleDeps
     (storageConfig [plainFile ''/a'', plainFile ''/l/x''] [plainDirectory ''/d'']
        [plainLink ''/l'' ''/t'']) (Some Map.empty) =
     Inl (UsesOwnLinkError ''/l'' ''File: /l/x'')"
proof -
  let ?c1 = "storageConfig [plainFile ''/l/x''] [] [plainLink ''/l'' ''/t'']"
  let ?c2 = "storageConfig [plainFile ''/a'', plainFile ''/l/x''] [plainDirectory ''/d'']
               [plainLink ''/l'' ''/t'']"
  have e1: "entriesOf rootMap ?c1 = [] @ (''/l/x'', ''File: /l/x'') # [(''/l'', ''Link: /l'')]"
    by (simp add: sample_entries)
  have e2: "entriesOf rootMap ?c2 =
      [(''/a'', ''File: /a'')] @ (''/l/x'', ''File: /l/x'') #
      [(''/d'', ''Directory: /d''), (''/l'', ''Link: /l'')]"
    by (simp add: sample_entries)
  have l1: "linkPaths rootMap ?c1 = [''/l'']" by (simp add: sample_entries)
  have l2: "linkPaths rootMap ?c2 = [''/l'']" by (simp add: sample_entries)
  have pa: "\<not> properPrefix ''/l'' ''/a''" by (simp add: properPrefix_def)
  have px: "properPrefix ''/l'' ''/l/x''" by (simp add: properPrefix_def)
  have u1: "\<exists>l \<in> set (linkPaths rootMap ?c1). properPrefix l ''/l/x''"
    using px by (simp add: l1)
  have u2: "\<exists>l \<in> set (linkPaths rootMap ?c2). properPrefix l ''/l/x''"
    using px by (simp add: l2)
  have p2: "\<forall>q \<in> fst ` set [(''/a'', ''File: /a'')].
      \<forall>l \<in> set (linkPaths rootMap ?c2). \<not> properPrefix l q"
    using pa by (simp add: l2)
  have t1: "Translate sampleDeps ?c1 (Some Map.empty) =
      Inl (UsesOwnLinkError (hd (filter (\<lambda>l. properPrefix l ''/l/x'') (linkPaths rootMap ?c1)))
             ''File: /l/x'')"
    by (rule Translate_uses_own_link [OF sample_deps(1) sample_earlierChecks e1 _ _ _ u1])
      simp_all
  have t2: "Translate sampleDeps ?c2 (Some Map.empty) =
      Inl (UsesOwnLinkError (hd (filter (\<lambda>l. properPrefix l ''/l/x'') (linkPaths rootMap ?c2)))
             ''File: /l/x'')"
    by (rule Translate_uses_own_link [OF sample_deps(1) sample_earlierChecks e2 _ p2 _ u2])
      simp_all
  show ?thesis
    using t1 t2 e2 l1 l2 pa px sample_earlierChecks [of _ _ _] sample_deps(1) by simp
qed

text \<open>
  The claim as stated fails for an entry under a link that is not the first to fail: with
  the link \<open>/l\<close> and the files \<open>/l/x\<close> and \<open>/l/y\<close> the error names \<open>/l/x\<close>, not
  \<open>/l/y\<close>; with a networkd unit in the configuration the error is
  \<open>UsesNetworkdError\<close>. It fails also for a prefix that is the whole path: the path of
  the link \<open>/l\<close> has the prefix \<open>/l\<close>, and the configuration with that link alone
  translates without error.
\<close>

theorem Translate_uses_own_link_counterexample:
  "take (length ''/l'') ''/l/y'' = ''/l'' \<and>
   specCheckPathUsesLink [''/l''] ''/l/y'' = ''/l'' \<and>
   entriesOf rootMap
     (storageConfig [plainFile ''/l/x'', plainFile ''/l/y''] [] [plainLink ''/l'' ''/t'']) =
     [(''/l/x'', ''File: /l/x''), (''/l/y'', ''File: /l/y''), (''/l'', ''Link: /l'')] \<and>
   Translate sampleDeps
     (storageConfig [plainFile ''/l/x'', plainFile ''/l/y''] [] [plainLink ''/l'' ''/t''])
     (Some Map.empty) = Inl (UsesOwnLinkError ''/l'' ''File: /l/x'') \<and>
   Translate sampleDeps
     (storageConfig [plainFile ''/l/x'', plainFile ''/l/y''] [] [plainLink ''/l'' ''/t''])
     (Some Map.empty) \<noteq> Inl (UsesOwnLinkError ''/l'' ''File: /l/y'') \<and>
   Translate sampleDeps
     ((storageConfig [plainFile ''/l/x''] [] [plainLink ''/l'' ''/t''])
        \<lparr>old_Config_Networkd_Units :=
           [\<lparr>old_Networkdunit_Name = ''00-eth.network'', old_Networkdunit_Contents = []\<rparr>]\<rparr>)
     (Some Map.empty) = Inl UsesNetworkdError \<and>
   entriesOf rootMap (storageConfig [] [] [plainLink ''/l'' ''/t'']) = [(''/l'', ''Link: /l'')] \<and>
   linkPaths rootMap (storageConfig [] [] [plainLink ''/l'' ''/t'']) = [''/l''] \<and>
   take (length ''/l'') ''/l'' = ''/l'' \<and>
   \<not> (\<exists>err. Translate sampleDeps (storageConfig [] [] [plainLink ''/l'' ''/t''])
               (Some Map.empty) = Inl err)"
proof -
  let ?c = "storageConfig [plainFile ''/l/x'', plainFile ''/l/y''] [] [plainLink ''/l'' ''/t'']"
  let ?o = "storageConfig [] [] [plainLink ''/l'' ''/t'']"
  have e: "entriesOf rootMap ?c =
      [(''/l/x'', ''File: /l/x''), (''/l/y'', ''File: /l/y''), (''/l'', ''Link: /l'')]"
    by (simp add: sample_entries)
  have l: "linkPaths rootMap ?c = [''/l'']" by (simp add: sample_entries)
  have t: "Translate sampleDeps ?c (Some Map.empty) =
      Inl (UsesOwnLinkError ''/l'' ''File: /l/x'')"
    by (simp add: Translate_def Check2_4_entries sample_earlierChecks e l sample_deps)
  have n: "Translate sampleDeps
     ((storageConfig [plainFile ''/l/x''] [] [plainLink ''/l'' ''/t''])
        \<lparr>old_Config_Networkd_Units :=
           [\<lparr>old_Networkdunit_Name = ''00-eth.network'', old_Networkdunit_Contents = []\<rparr>]\<rparr>)
     (Some Map.empty) = Inl UsesNetworkdError"
    by (simp add: Translate_def Check2_4_def sample_deps IsFatal_def IsDeprecated_def
        storageConfig_def)
  have eo: "entriesOf rootMap ?o = [(''/l'', ''Link: /l'')]" by (simp add: sample_entries)
  have lo: "linkPaths rootMap ?o = [''/l'']" by (simp add: sample_entries)
  have u: "old_Config_Systemd_Units ?o = []" by (simp add: storageConfig_def)
  have o: "\<exists>res. Translate sampleDeps ?o (Some Map.empty) = Inr res"
    by (simp add: Translate_def Check2_4_entries sample_earlierChecks eo lo u sample_deps
        IsFatal_def Let_def)
  then have no: "\<not> (\<exists>err. Translate sampleDeps ?o (Some Map.empty) = Inl err)" by auto
  show ?thesis using e t n eo lo no by simp
qed

text \<open>
  Claim C3, as amended. When the checks before the entries pass, the entries before a given
  one in the order of checking (files, then directories, then links) have paths different
  from each other that lie under no declared link, and the given entry has the path of one
  of them, then the translation fails with \<open>DuplicateInode\<close>, whose old field is the
  description of the earlier entry and whose new field is the description of the later one.
\<close>

theorem Translate_duplicate_inode:
  assumes "earlierChecks d cfg fsMap0 = Inr fsMap"
    and "entriesOf fsMap cfg = pre @ (p, new) # post"
    and "distinct (map fst pre)"
    and "\<forall>q \<in> fst ` set pre. CheckPathUsesLink d (linkPaths fsMap cfg) q = []"
    and "(p, old) \<in> set pre"
  shows "Translate d cfg fsMap0 = Inl (DuplicateInodeError old new)"
  using checkEntries_duplicate [OF assms(3,4,5), of new post] assms(1,2)
  by (simp add: Translate_def Check2_4_entries)

text \<open>The scenario of the specification: file \<open>/a\<close> and directory \<open>/a\<close>.\<close>

theorem Translate_duplicate_inode_witness:
  "earlierChecks sampleDeps (storageConfig [plainFile ''/a''] [plainDirectory ''/a''] [])
     (Some Map.empty) = Inr rootMap \<and>
   entriesOf rootMap (storageConfig [plainFile ''/a''] [plainDirectory ''/a''] []) =
     [(''/a'', ''File: /a'')] @ (''/a'', ''Directory: /a'') # [] \<and>
   Translate sampleDeps (storageConfig [plainFile ''/a''] [plainDirectory ''/a''] [])
     (Some Map.empty) = Inl (DuplicateInodeError ''File: /a'' ''Directory: /a'')"
proof -
  let ?c = "storageConfig [plainFile ''/a''] [plainDirectory ''/a''] []"
  have e: "entriesOf rootMap ?c = [(''/a'', ''File: /a'')] @ (''/a'', ''Directory: /a'') # []"
    by (simp add: sample_entries)
  have l: "linkPaths rootMap ?c = []" by (simp add: sample_entries)
  have p: "\<forall>q \<in> fst ` set [(''/a'', ''File: /a'')].
      CheckPathUsesLink sampleDeps (linkPaths rootMap ?c) q = []"
    by (simp add: l sample_deps)
  have t: "Translate sampleDeps ?c (Some Map.empty) =
      Inl (DuplicateInodeError ''File: /a'' ''Directory: /a'')"
    by (rule Translate_duplicate_inode [OF sample_earlierChecks e _ p]) simp_all
  show ?thesis using t e sample_earlierChecks [of _ _ _] by simp
qed

text \<open>
  The claim as stated fails where another check fails first: with the link \<open>/l\<close> and the
  file \<open>/l/x\<close> given twice the error is \<open>UsesOwnLink\<close> for the first of the two, and
  with a networkd unit next to the file \<open>/a\<close> and the directory \<open>/a\<close> it is
  \<open>UsesNetworkdError\<close>.
\<close>

theorem Translate_duplicate_inode_counterexample:
  "entriesOf rootMap
     (storageConfig [plainFile ''/l/x'', plainFile ''/l/x''] [] [plainLink ''/l'' ''/t'']) =
     [(''/l/x'', ''File: /l/x''), (''/l/x'', ''File: /l/x''), (''/l'', ''Link: /l'')] \<and>
   Translate sampleDeps
     (storageConfig [plainFile ''/l/x'', plainFile ''/l/x''] [] [plainLink ''/l'' ''/t''])
     (Some Map.empty) = Inl (UsesOwnLinkError ''/l'' ''File: /l/x'') \<and>
   \<not> (\<exists>old new. Translate sampleDeps
     (storageConfig [plainFile ''/l/x'', plainFile ''/l/x''] [] [plainLink ''/l'' ''/t''])
     (Some Map.empty) = Inl (DuplicateInodeError old new)) \<and>
   Translate sampleDeps
     ((storageConfig [plainFile ''/a''] [plainDirectory ''/a''] [])
        \<lparr>old_Config_Networkd_Units :=
           [\<lparr>old_Networkdunit_Name = ''00-eth.network'', old_Networkdunit_Contents = []\<rparr>]\<rparr>)
     (Some Map.empty) = Inl UsesNetworkdError"
proof -
  let ?c = "storageConfig [plainFile ''/l/x'', plainFile ''/l/x''] [] [plainLink ''/l'' ''/t'']"
  have e: "entriesOf rootMap ?c =
      [(''/l/x'', ''File: /l/x''), (''/l/x'', ''File: /l/x''), (''/l'', ''Link: /l'')]"
    by (simp add: sample_entries)
  have l: "linkPaths rootMap ?c = [''/l'']" by (simp add: sample_entries)
  have t: "Translate sampleDeps ?c (Some Map.empty) =
      Inl (UsesOwnLinkError ''/l'' ''File: /l/x'')"
    by (simp add: Translate_def Check2_4_entries sample_earlierChecks e l sample_deps)
  have n: "Translate sampleDeps
     ((storageConfig [plainFile ''/a''] [plainDirectory ''/a''] [])
        \<lparr>old_Config_Networkd_Units :=
           [\<lparr>old_Networkdunit_Name = ''00-eth.network'', old_Networkdunit_Contents = []\<rparr>]\<rparr>)
     (Some Map.empty) = Inl UsesNetworkdError"
    by (simp add: Translate_def Check2_4_def sample_deps IsFatal_def IsDeprecated_def
        storageConfig_def)
  show ?thesis using e t n by simp
qed

subsection \<open>Translating units, filesystems and files\<close>

text \<open>
  Claim C4. Every legacy unit has one translated unit, at the same position and with the
  same name. When its \<open>Enabled\<close> is present and false the translated \<open>enabled\<close> is
  present and false, whatever \<open>Enable\<close> is; when \<open>Enabled\<close> is absent and \<open>Enable\<close>
  is true it is present and true; when \<open>Enabled\<close> is absent and \<open>Enable\<close> is false it
  is absent, so present-false and absent stay apart.
\<close>

theorem translateUnits_enabled:
  "length (translateUnits units) = length units \<and>
   (\<forall>i < length units.
      v3_Unit_Name (translateUnits units ! i) = old_Unit_Name (units ! i) \<and>
      (old_Unit_Enabled (units ! i) = Some False \<longrightarrow>
         v3_Unit_Enabled (translateUnits units ! i) = Some False) \<and>
      (old_Unit_Enabled (units ! i) = Some True \<longrightarrow>
         v3_Unit_Enabled (translateUnits units ! i) = Some True) \<and>
      (old_Unit_Enabled (units ! i) = None \<and> old_Unit_Enable (units ! i) \<longrightarrow>
         v3_Unit_Enabled (translateUnits units ! i) = Some True) \<and>
      (old_Unit_Enabled (units ! i) = None \<and> \<not> old_Unit_Enable (units ! i) \<longrightarrow>
         v3_Unit_Enabled (translateUnits units ! i) = None))"
  by (simp add: translateUnits_def translateUnit_def BoolP_def BoolPStrict_def Let_def)

text \<open>
  The scenario of the specification, \<open>Enable\<close> true and \<open>Enabled\<close> false, next to a
  unit with \<open>Enable\<close> true alone and a unit with neither.
\<close>

theorem translateUnits_enabled_witness:
  "(1::nat) < length [legacyUnit ''a.service'' True None,
                      legacyUnit ''b.service'' True (Some False),
                      legacyUnit ''c.service'' False None] \<and>
   old_Unit_Enabled ([legacyUnit ''a.service'' True None,
                      legacyUnit ''b.service'' True (Some False),
                      legacyUnit ''c.service'' False None] ! 1) = Some False \<and>
   old_Unit_Enable ([legacyUnit ''a.service'' True None,
                     legacyUnit ''b.service'' True (Some False),
                     legacyUnit ''c.service'' False None] ! 1) \<and>
   v3_Unit_Enabled (translateUnits [legacyUnit ''a.service'' True None,
                                    legacyUnit ''b.service'' True (Some False),
                                    legacyUnit ''c.service'' False None] ! 1) = Some False \<and>
   map v3_Unit_Enabled (translateUnits [legacyUnit ''a.service'' True None,
                                        legacyUnit ''b.service'' True (Some False),
                                        legacyUnit ''c.service'' False None]) =
     [Some True, Some False, None]"
proof -
  let ?us = "[legacyUnit ''a.service'' True None, legacyUnit ''b.service'' True (Some False),
              legacyUnit ''c.service'' False None]"
  have n: "(1::nat) < length ?us" by simp
  have e: "old_Unit_Enabled (?us ! 1) = Some False" by (simp add: legacyUnit_def)
  have b: "old_Unit_Enable (?us ! 1)" by (simp add: legacyUnit_def)
  have m: "map v3_Unit_Enabled (translateUnits ?us) = [Some True, Some False, None]"
    by (simp add: translateUnits_def translateUnit_def legacyUnit_def BoolP_def
        BoolPStrict_def Let_def)
  from translateUnits_enabled [of ?us] n e
  have "v3_Unit_Enabled (translateUnits ?us ! 1) = Some False" by blast
  with n e b m show ?thesis by blast
qed

lemma translateFilesystems_filter:
  "translateFilesystems fss m =
     map (translateFilesystem m) (filter (\<lambda>f. old_Filesystem_Name f \<noteq> ''root'') fss)"
  by (induction fss) auto

lemma translateFilesystem_oem:
  "old_Filesystem_Name f = ''oem'' \<Longrightarrow> \<not> effectiveWipe f \<Longrightarrow>
     v3_Filesystem_Format (translateFilesystem m f) = Some ''btrfs'' \<and>
     v3_Filesystem_WipeFilesystem (translateFilesystem m f) \<noteq> Some True"
  by (auto simp: translateFilesystem_def effectiveWipe_def Let_def BoolP_def StrP_def
        zeroMount_def split: option.splits)

text \<open>
  Claim C5. The translated list holds one filesystem for every legacy filesystem that is not
  named \<open>root\<close>, in order, and none for \<open>root\<close>. For a legacy filesystem named \<open>oem\<close>
  whose wipe flag, after the \<open>create\<close> object is applied, is not true, the translated
  format is \<open>btrfs\<close> whatever the legacy format is, and the translated wipe flag is not
  true.
\<close>

theorem translateFilesystems_oem_btrfs:
  "translateFilesystems fss m =
     map (translateFilesystem m) (filter (\<lambda>f. old_Filesystem_Name f \<noteq> ''root'') fss) \<and>
   (\<forall>f \<in> set fss.
      old_Filesystem_Name f = ''oem'' \<and> \<not> effectiveWipe f \<longrightarrow>
        translateFilesystem m f \<in> set (translateFilesystems fss m) \<and>
        v3_Filesystem_Format (translateFilesystem m f) = Some ''btrfs'' \<and>
        v3_Filesystem_WipeFilesystem (translateFilesystem m f) \<noteq> Some True)"
  using translateFilesystem_oem by (auto simp: translateFilesystems_filter)

theorem translateFilesystems_oem_btrfs_witness:
  "legacyFilesystem ''oem'' ''/dev/sda6'' ''ext4'' \<in>
     set [legacyFilesystem ''root'' ''/dev/sda9'' ''ext4'',
          legacyFilesystem ''oem'' ''/dev/sda6'' ''ext4''] \<and>
   old_Filesystem_Name (legacyFilesystem ''oem'' ''/dev/sda6'' ''ext4'') = ''oem'' \<and>
   \<not> effectiveWipe (legacyFilesystem ''oem'' ''/dev/sda6'' ''ext4'') \<and>
   map v3_Filesystem_Device
     (translateFilesystems [legacyFilesystem ''root'' ''/dev/sda9'' ''ext4'',
                            legacyFilesystem ''oem'' ''/dev/sda6'' ''ext4''] Map.empty) =
     [''/dev/sda6''] \<and>
   v3_Filesystem_Format
     (translateFilesystem Map.empty (legacyFilesystem ''oem'' ''/dev/sda6'' ''ext4'')) =
     Some ''btrfs''"
proof -
  let ?oem = "legacyFilesystem ''oem'' ''/dev/sda6'' ''ext4''"
  let ?fss = "[legacyFilesystem ''root'' ''/dev/sda9'' ''ext4'', ?oem]"
  have i: "?oem \<in> set ?fss" by simp
  have n: "old_Filesystem_Name ?oem = ''oem''" by (simp add: legacyFilesystem_def)
  have w: "\<not> effectiveWipe ?oem"
    by (simp add: effectiveWipe_def legacyFilesystem_def zeroMount_def)
  have d: "map v3_Filesystem_Device (translateFilesystems ?fss Map.empty) = [''/dev/sda6'']"
    by (simp add: legacyFilesystem_def translateFilesystem_def zeroMount_def Let_def)
  from translateFilesystems_oem_btrfs [of ?fss Map.empty] i n w
  have "v3_Filesystem_Format (translateFilesystem Map.empty ?oem) = Some ''btrfs''" by blast
  with i n w d show ?thesis by blast
qed

text \<open>
  Claim C10. Every legacy file has one translated file, at the same position, and its
  \<open>overwrite\<close> is never absent. A legacy file without \<open>overwrite\<close> and without
  \<open>append\<close> gets \<open>overwrite\<close> present and true and an empty \<open>append\<close> list; a legacy
  file with \<open>append\<close> gets \<open>overwrite\<close> present and false, its contents as the only
  element of \<open>append\<close>, and zero \<open>contents\<close>. No translated file has a non-empty
  \<open>append\<close> list together with \<open>overwrite\<close> true.
\<close>

theorem translateFiles_overwrite:
  "length (translateFiles files m) = length files \<and>
   (\<forall>i < length files.
      v3_Node_Overwrite (v3_File_Node (translateFiles files m ! i)) \<noteq> None \<and>
      (old_Node_Overwrite (old_File_Node (files ! i)) = None \<and> \<not> old_File_Append (files ! i) \<longrightarrow>
         v3_Node_Overwrite (v3_File_Node (translateFiles files m ! i)) = Some True \<and>
         v3_File_Append (translateFiles files m ! i) = []) \<and>
      (old_File_Append (files ! i) \<longrightarrow>
         v3_Node_Overwrite (v3_File_Node (translateFiles files m ! i)) = Some False \<and>
         (\<exists>c. v3_File_Append (translateFiles files m ! i) = [c] \<and>
              v3_Resource_Source c =
                Some (old_FileContents_Source (old_File_Contents (files ! i)))) \<and>
         v3_File_Contents (translateFiles files m ! i) = zeroResource) \<and>
      \<not> (v3_File_Append (translateFiles files m ! i) \<noteq> [] \<and>
         v3_Node_Overwrite (v3_File_Node (translateFiles files m ! i)) = Some True))"
  by (auto simp: translateFiles_def translateFile_def translateNode_def BoolP_def
      BoolPStrict_def StrPStrict_def Let_def)

theorem translateFiles_overwrite_witness:
  "(1::nat) < length [plainFile ''/a'', (plainFile ''/b'')\<lparr>old_File_Append := True\<rparr>] \<and>
   old_Node_Overwrite (old_File_Node (plainFile ''/a'')) = None \<and>
   \<not> old_File_Append (plainFile ''/a'') \<and>
   old_File_Append ((plainFile ''/b'')\<lparr>old_File_Append := True\<rparr>) \<and>
   map (\<lambda>t. (v3_Node_Overwrite (v3_File_Node t), length (v3_File_Append t)))
     (translateFiles [plainFile ''/a'', (plainFile ''/b'')\<lparr>old_File_Append := True\<rparr>] rootMap) =
     [(Some True, 0), (Some False, 1)] \<and>
   v3_Node_Overwrite (v3_File_Node
     (translateFiles [plainFile ''/a'', (plainFile ''/b'')\<lparr>old_File_Append := True\<rparr>] rootMap
        ! 1)) = Some False"
proof -
  let ?fs = "[plainFile ''/a'', (plainFile ''/b'')\<lparr>old_File_Append := True\<rparr>]"
  have n: "(1::nat) < length ?fs" by simp
  have o: "old_Node_Overwrite (old_File_Node (plainFile ''/a'')) = None"
    by (simp add: plainFile_def rootNode_def)
  have a: "\<not> old_File_Append (plainFile ''/a'')" by (simp add: plainFile_def)
  have b: "old_File_Append (?fs ! 1)" by simp
  have m: "map (\<lambda>t. (v3_Node_Overwrite (v3_File_Node t), length (v3_File_Append t)))
      (translateFiles ?fs rootMap) = [(Some True, 0), (Some False, 1)]"
    by (simp add: translateFiles_def translateFile_def translateNode_def plainFile_def
        rootNode_def BoolP_def BoolPStrict_def Let_def)
  from translateFiles_overwrite [of ?fs rootMap] n b
  have "v3_Node_Overwrite (v3_File_Node (translateFiles ?fs rootMap ! 1)) = Some False"
    by blast
  with n o a b m show ?thesis by simp
qed

subsection \<open>Parsing\<close>

text \<open>
  Claim C6, as amended. \<open>Parse\<close> on the empty input returns the zero configuration, the
  empty report and \<open>ErrEmpty\<close>. On a non-empty input that the decoder accepts without
  error and whose version string does not parse (it is missing or malformed) or parses to a
  version other than the maximal version of the schema, it returns the zero configuration,
  the empty report and \<open>ErrUnknownVersion\<close>. On a non-empty input for which the decoder
  returns an error it returns the zero configuration with the decoder's report and error,
  whatever the version is.
\<close>

theorem Parse_unknown_version:
  "Parse d [] = (zeroConfig d, [], Some ErrEmpty) \<and>
   (rawConfig \<noteq> [] \<and> HandleParseErrors d rawConfig = (config, rpt, None) \<and>
    NewVersion d (IgnitionVersion d config) \<noteq> Some (MaxVersion d) \<longrightarrow>
      Parse d rawConfig = (zeroConfig d, [], Some ErrUnknownVersion)) \<and>
   (rawConfig \<noteq> [] \<and> HandleParseErrors d rawConfig = (config, rpt, Some err) \<longrightarrow>
      Parse d rawConfig = (zeroConfig d, rpt, Some err))"
  by (auto simp: Parse_def Let_def)

text \<open>
  On the sample schema: no version field, a version of an earlier schema, and the maximal
  version, which is accepted; an input that the decoder rejects.
\<close>

theorem Parse_unknown_version_witness:
  "''{}'' \<noteq> [] \<and>
   HandleParseErrors sampleParse ''{}'' = ([], [], None) \<and>
   NewVersion sampleParse (IgnitionVersion sampleParse []) = None \<and>
   Parse sampleParse ''{}'' = ([], [], Some ErrUnknownVersion) \<and>
   HandleParseErrors sampleParse ''{ignition:{version:3.3.0}}'' = (''3.3.0'', [], None) \<and>
   NewVersion sampleParse (IgnitionVersion sampleParse ''3.3.0'') \<noteq>
     Some (MaxVersion sampleParse) \<and>
   Parse sampleParse ''{ignition:{version:3.3.0}}'' = ([], [], Some ErrUnknownVersion) \<and>
   Parse sampleParse ''{ignition:{version:3.4.0-experimental}}'' =
     (''3.4.0-experimental'', [], None) \<and>
   HandleParseErrors sampleParse ''{'' =
     ([], [(EntryError, ''invalid character'')], Some ErrInvalid) \<and>
   Parse sampleParse ''{'' = ([], [(EntryError, ''invalid character'')], Some ErrInvalid)"
proof -
  have h1: "HandleParseErrors sampleParse ''{}'' = ([], [], None)"
    by (simp add: sampleParse_def)
  have v1: "NewVersion sampleParse (IgnitionVersion sampleParse []) = None"
    by (simp add: sampleParse_def)
  have h2: "HandleParseErrors sampleParse ''{ignition:{version:3.3.0}}'' = (''3.3.0'', [], None)"
    by (simp add: sampleParse_def)
  have v2: "NewVersion sampleParse (IgnitionVersion sampleParse ''3.3.0'') \<noteq>
      Some (MaxVersion sampleParse)"
    by (simp add: sampleParse_def)
  have h3: "HandleParseErrors sampleParse ''{'' =
      ([], [(EntryError, ''invalid character'')], Some ErrInvalid)"
    by (simp add: sampleParse_def)
  have z: "zeroConfig sampleParse = []" by (simp add: sampleParse_def)
  have ok: "Parse sampleParse ''{ignition:{version:3.4.0-experimental}}'' =
      (''3.4.0-experimental'', [], None)"
    by (simp add: Parse_def sampleParse_def IsFatal_def Let_def)
  have p1: "Parse sampleParse ''{}'' = ([], [], Some ErrUnknownVersion)"
    using Parse_unknown_version [of sampleParse "''{}''" "[]" "[]"] h1 v1 z by simp
  have p2: "Parse sampleParse ''{ignition:{version:3.3.0}}'' = ([], [], Some ErrUnknownVersion)"
    using Parse_unknown_version
      [of sampleParse "''{ignition:{version:3.3.0}}''" "''3.3.0''" "[]"] h2 v2 z
    by simp
  have p3: "Parse sampleParse ''{'' =
      ([], [(EntryError, ''invalid character'')], Some ErrInvalid)"
    using Parse_unknown_version
      [of sampleParse "''{''" "[]" "[(EntryError, ''invalid character'')]" ErrInvalid] h3 z
    by simp
  show ?thesis using h1 v1 h2 v2 h3 ok p1 p2 p3 by simp
qed

text \<open>
  The claim as stated fails where the decoder returns an error: the decoder's error and
  report are returned before the version is read. On the sample schema a document of
  version \<open>2.2.0\<close>, which is not the maximal version, with a number where the storage
  section belongs gives \<open>ErrInvalid\<close> and a report that is not empty.
\<close>

theorem Parse_unknown_version_counterexample:
  "HandleParseErrors sampleParse ''{ignition:{version:2.2.0},storage:5}'' =
     (''2.2.0'', [(EntryError, ''json: cannot unmarshal number into Go struct field'')],
      Some ErrInvalid) \<and>
   IgnitionVersion sampleParse ''2.2.0'' = ''2.2.0'' \<and>
   NewVersion sampleParse ''2.2.0'' =
     Some \<lparr>Major = 2, Minor = 2, Patch = 0, PreRelease = [], Metadata = []\<rparr> \<and>
   NewVersion sampleParse ''2.2.0'' \<noteq> Some (MaxVersion sampleParse) \<and>
   Parse sampleParse ''{ignition:{version:2.2.0},storage:5}'' =
     ([], [(EntryError, ''json: cannot unmarshal number into Go struct field'')],
      Some ErrInvalid) \<and>
   Parse sampleParse ''{ignition:{version:2.2.0},storage:5}'' \<noteq>
     ([], [], Some ErrUnknownVersion)"
proof -
  have h: "HandleParseErrors sampleParse ''{ignition:{version:2.2.0},storage:5}'' =
     (''2.2.0'', [(EntryError, ''json: cannot unmarshal number into Go struct field'')],
      Some ErrInvalid)"
    by (simp add: sampleParse_def)
  have i: "IgnitionVersion sampleParse ''2.2.0'' = ''2.2.0''" by (simp add: sampleParse_def)
  have v: "NewVersion sampleParse ''2.2.0'' =
      Some \<lparr>Major = 2, Minor = 2, Patch = 0, PreRelease = [], Metadata = []\<rparr>"
    by (simp add: sampleParse_def)
  have n: "NewVersion sampleParse ''2.2.0'' \<noteq> Some (MaxVersion sampleParse)"
    by (simp add: sampleParse_def)
  have z: "zeroConfig sampleParse = []" by (simp add: sampleParse_def)
  have p: "Parse sampleParse ''{ignition:{version:2.2.0},storage:5}'' =
     ([], [(EntryError, ''json: cannot unmarshal number into Go struct field'')],
      Some ErrInvalid)"
    by (simp add: Parse_def h z)
  show ?thesis using h i v n p by simp
qed

end
